theory Spec2Isabelle
  imports Complex_Main
begin

section \<open>The alpha-shape pipeline of s3dxrd/utils/postprocessing.py\<close>

text \<open>
  A shallow embedding of \<^verbatim>\<open>alphashape\<close>, \<^verbatim>\<open>_min_absolute_value\<close> and
  \<^verbatim>\<open>find_best_approximations\<close>.

  Conventions of the embedding.
  \<^item> A numpy float is a value of \<open>npfloat\<close>: a real number, one of the two infinities or NaN.
    The special values follow IEEE 754 (\<open>inf - inf\<close> and \<open>0 * inf\<close> are NaN);
    arithmetic on finite values is exact, so rounding error and overflow are not modelled.
  \<^item> The caller's point cloud is an \<open>(N, 3)\<close> array of finite floats: a list of triples of
    reals. A \<open>(4, N)\<close> array of homogeneous coordinates is kept as the list of its \<open>N\<close>
    columns, and \<open>M @ A\<close> for a \<open>4 \<times> 4\<close> matrix \<open>M\<close> applies \<open>M\<close> to every column.
  \<^item> An exception is a value \<open>Inl e\<close> of a sum type.
  \<^item> Integers are unbounded: what numpy does beyond the range of int64 is not modelled.
  \<^item> \<^verbatim>\<open>find_best_approximations\<close> is compiled by numba (\<^verbatim>\<open>@jit\<close>). Where the compiled
    function differs from the interpreted one the model follows the compiled one: a float
    division by zero raises ZeroDivisionError, and a float infinity that is stored into an
    int64 array becomes the least int64.
  \<^item> What the compiled function computes depends on machine arithmetic that the reals do
    not have: the rounding of float32 and float64 in the distance, and the conversions
    between the dtype of the pool and the dtype of the result. Its loop is therefore defined
    over a \<open>machine\<close>, which holds these evaluations; what is proved of the loop holds for
    every machine. The two machines of the examples, for a float64 pool and for the int64
    pool that \<^verbatim>\<open>alphashape\<close> passes, evaluate the arithmetic exactly.
  \<^item> \<^verbatim>\<open>measure.marching_cubes\<close> belongs to scikit-image; it is a parameter \<open>mc\<close>.
  \<^item> The plotting branch (\<^verbatim>\<open>plot=True\<close>) only displays values; it is left out.
\<close>

subsection \<open>Exceptions\<close>

text \<open>
  The exceptions of Python and numpy that the source can raise, an error of the external
  mesh library, and the two errors that the spec names, \<open>InvalidInput\<close> and
  \<open>PoolExhaustion\<close>, which no statement of the source raises.
\<close>

datatype py_error =
  ValueError | IndexError | TypeError | ZeroDivisionError | LibraryError
  | InvalidInput | PoolExhaustion

text \<open>Sequencing: an exception of the first computation ends the whole.\<close>

definition and_then :: "py_error + 'a \<Rightarrow> ('a \<Rightarrow> py_error + 'b) \<Rightarrow> py_error + 'b" where
  "and_then m f = (case m of Inl e \<Rightarrow> Inl e | Inr x \<Rightarrow> f x)"

subsection \<open>numpy floats\<close>

datatype npfloat = Fin real | PInf | NInf | NaN

fun is_nan :: "npfloat \<Rightarrow> bool" where
  "is_nan NaN = True"
| "is_nan _ = False"

fun is_finite :: "npfloat \<Rightarrow> bool" where
  "is_finite (Fin _) = True"
| "is_finite _ = False"

fun fl_add :: "npfloat \<Rightarrow> npfloat \<Rightarrow> npfloat" where
  "fl_add NaN _ = NaN"
| "fl_add _ NaN = NaN"
| "fl_add (Fin a) (Fin b) = Fin (a + b)"
| "fl_add PInf NInf = NaN"
| "fl_add NInf PInf = NaN"
| "fl_add PInf _ = PInf"
| "fl_add _ PInf = PInf"
| "fl_add NInf _ = NInf"
| "fl_add _ NInf = NInf"

text \<open>The product of a finite float \<open>a\<close> (a matrix entry, a normal's component) and a float.\<close>

fun fl_scale :: "real \<Rightarrow> npfloat \<Rightarrow> npfloat" where
  "fl_scale a (Fin b) = Fin (a * b)"
| "fl_scale a PInf = (if 0 < a then PInf else if a < 0 then NInf else NaN)"
| "fl_scale a NInf = (if 0 < a then NInf else if a < 0 then PInf else NaN)"
| "fl_scale a NaN = NaN"

text \<open>
  The quotient of a float and a finite float \<open>b\<close> that is not zero. (The compiled function
  raises ZeroDivisionError before it divides by zero; see \<open>plane_distance\<close>.)
\<close>

fun fl_div :: "npfloat \<Rightarrow> real \<Rightarrow> npfloat" where
  "fl_div (Fin a) b = Fin (a / b)"
| "fl_div PInf b = (if 0 < b then PInf else NInf)"
| "fl_div NInf b = (if 0 < b then NInf else PInf)"
| "fl_div NaN b = NaN"

fun fl_abs :: "npfloat \<Rightarrow> npfloat" where
  "fl_abs (Fin a) = Fin \<bar>a\<bar>"
| "fl_abs PInf = PInf"
| "fl_abs NInf = PInf"
| "fl_abs NaN = NaN"

text \<open>\<open>x >= y\<close> on floats: false as soon as one side is NaN.\<close>

fun fl_ge :: "npfloat \<Rightarrow> npfloat \<Rightarrow> bool" where
  "fl_ge NaN _ = False"
| "fl_ge _ NaN = False"
| "fl_ge (Fin a) (Fin b) = (b \<le> a)"
| "fl_ge PInf _ = True"
| "fl_ge _ NInf = True"
| "fl_ge NInf _ = False"
| "fl_ge _ PInf = False"

subsection \<open>\<^verbatim>\<open>np.argmin\<close>, \<^verbatim>\<open>np.around\<close>, \<^verbatim>\<open>int\<close>, \<^verbatim>\<open>np.amax\<close> and \<^verbatim>\<open>np.amin\<close>\<close>

text \<open>
  numpy's scan for the index of the minimum of a one-dimensional array of floats:
  \<^verbatim>\<open>
  mp = ip[0]; min_ind = 0
  if isnan(mp): return 0
  for i in 1 .. n-1:
      if not (ip[i] >= mp):
          mp = ip[i]; min_ind = i
          if isnan(mp): break
  \<close>
  so the first NaN wins, and otherwise the first occurrence of the least value.
  \<open>argmin_scan xs i min_ind mp\<close> is the loop at index \<open>i\<close> with \<open>xs\<close> still to read.
\<close>

fun argmin_scan :: "npfloat list \<Rightarrow> nat \<Rightarrow> nat \<Rightarrow> npfloat \<Rightarrow> nat" where
  "argmin_scan [] i min_ind mp = min_ind"
| "argmin_scan (x # xs) i min_ind mp =
     (if is_nan mp then min_ind
      else if \<not> fl_ge x mp then argmin_scan xs (Suc i) i x
      else argmin_scan xs (Suc i) min_ind mp)"

text \<open>On an empty array \<^verbatim>\<open>np.argmin\<close> raises ValueError.\<close>

definition np_argmin :: "npfloat list \<Rightarrow> py_error + nat" where
  "np_argmin xs = (case xs of [] \<Rightarrow> Inl ValueError | x # xs' \<Rightarrow> Inr (argmin_scan xs' 1 0 x))"

text \<open>\<^verbatim>\<open>np.around\<close> rounds to the nearest integer, a half to the even neighbour.\<close>

definition np_around :: "real \<Rightarrow> int" where
  "np_around x =
     (let f = \<lfloor>x\<rfloor>; d = x - of_int f
      in if d < 1 / 2 then f else if 1 / 2 < d then f + 1 else if even f then f else f + 1)"

text \<open>Python's \<^verbatim>\<open>int\<close> of a finite float truncates towards zero.\<close>

definition py_int :: "real \<Rightarrow> int" where
  "py_int x = (if 0 \<le> x then \<lfloor>x\<rfloor> else \<lceil>x\<rceil>)"

text \<open>
  \<^verbatim>\<open>np.amax(a, axis=1)\<close> and \<^verbatim>\<open>np.amin(a, axis=1)\<close> of one row: a reduction
  from the first element; on a row of size zero numpy raises ValueError.
\<close>

definition np_amax :: "real list \<Rightarrow> py_error + real" where
  "np_amax xs = (case xs of [] \<Rightarrow> Inl ValueError | x # xs' \<Rightarrow> Inr (fold max xs' x))"

definition np_amin :: "real list \<Rightarrow> py_error + real" where
  "np_amin xs = (case xs of [] \<Rightarrow> Inl ValueError | x # xs' \<Rightarrow> Inr (fold min xs' x))"

subsection \<open>Vectors and \<open>4 \<times> 4\<close> matrices\<close>

type_synonym vec3 = "real \<times> real \<times> real"
type_synonym ivec3 = "int \<times> int \<times> int"
type_synonym vec4 = "real \<times> real \<times> real \<times> real"
type_synonym mat4 = "vec4 \<times> vec4 \<times> vec4 \<times> vec4"

fun dot4 :: "vec4 \<Rightarrow> vec4 \<Rightarrow> real" where
  "dot4 (a0, a1, a2, a3) (b0, b1, b2, b3) = a0 * b0 + a1 * b1 + a2 * b2 + a3 * b3"

text \<open>\<open>M @ v\<close> for a column \<open>v\<close>.\<close>

fun matvec :: "mat4 \<Rightarrow> vec4 \<Rightarrow> vec4" where
  "matvec (r0, r1, r2, r3) v = (dot4 r0 v, dot4 r1 v, dot4 r2 v, dot4 r3 v)"

fun column :: "mat4 \<Rightarrow> nat \<Rightarrow> vec4" where
  "column ((a0, a1, a2, a3), (b0, b1, b2, b3), (c0, c1, c2, c3), (d0, d1, d2, d3)) k =
     (if k = 0 then (a0, b0, c0, d0) else if k = 1 then (a1, b1, c1, d1)
      else if k = 2 then (a2, b2, c2, d2) else (a3, b3, c3, d3))"

fun row_times :: "vec4 \<Rightarrow> mat4 \<Rightarrow> vec4" where
  "row_times r B = (dot4 r (column B 0), dot4 r (column B 1), dot4 r (column B 2), dot4 r (column B 3))"

text \<open>\<open>A @ B\<close> for two matrices.\<close>

fun matmul :: "mat4 \<Rightarrow> mat4 \<Rightarrow> mat4" where
  "matmul (r0, r1, r2, r3) B = (row_times r0 B, row_times r1 B, row_times r2 B, row_times r3 B)"

definition identity4 :: mat4 where
  "identity4 = ((1, 0, 0, 0), (0, 1, 0, 0), (0, 0, 1, 0), (0, 0, 0, 1))"

text \<open>\<^verbatim>\<open>np.hstack((a, np.ones((n, 1))))\<close> on one row, and the slice \<^verbatim>\<open>[:3]\<close> back.\<close>

fun hstack_one :: "vec3 \<Rightarrow> vec4" where
  "hstack_one (x, y, z) = (x, y, z, 1)"

fun first3 :: "vec4 \<Rightarrow> vec3" where
  "first3 (x, y, z, w) = (x, y, z)"

subsection \<open>The coordinate transform (lines 60 to 72)\<close>

definition transform_scale :: mat4 where
  "transform_scale = ((25, 0, 0, 0), (0, 25, 0, 0), (0, 0, 25, 0), (0, 0, 0, 1))"

definition inv_transform_scale :: mat4 where
  "inv_transform_scale = ((1 / 25, 0, 0, 0), (0, 1 / 25, 0, 0), (0, 0, 1 / 25, 0), (0, 0, 0, 1))"

fun transform_direction :: "ivec3 \<Rightarrow> mat4" where
  "transform_direction (s0, s1, s2) =
     ((1, 0, 0, - of_int s0), (0, 1, 0, - of_int s1), (0, 0, 1, - of_int s2), (0, 0, 0, 1))"

fun inv_transform_direction :: "ivec3 \<Rightarrow> mat4" where
  "inv_transform_direction (s0, s1, s2) =
     ((1, 0, 0, of_int s0), (0, 1, 0, of_int s1), (0, 0, 1, of_int s2), (0, 0, 0, 1))"

text \<open>
  \<^verbatim>\<open>_min_absolute_value(a1, a2)\<close>: \<open>stacked\<close> has the rows \<open>a1\<close> and \<open>a2\<close>;
  \<open>indices[k]\<close> is the argmin of column \<open>k\<close> of \<open>|stacked|\<close>, and the result's entry \<open>k\<close> is
  \<^verbatim>\<open>int(stacked[indices[k], k])\<close>.
\<close>

definition column_argmin_abs :: "real \<Rightarrow> real \<Rightarrow> nat" where
  "column_argmin_abs x1 x2 = argmin_scan [Fin \<bar>x2\<bar>] 1 0 (Fin \<bar>x1\<bar>)"

fun min_absolute_value :: "vec3 \<Rightarrow> vec3 \<Rightarrow> ivec3" where
  "min_absolute_value (x1, y1, z1) (x2, y2, z2) =
     (py_int ([x1, x2] ! column_argmin_abs x1 x2),
      py_int ([y1, y2] ! column_argmin_abs y1 y2),
      py_int ([z1, z2] ! column_argmin_abs z1 z2))"

text \<open>The forward and the inverse map, as the source composes them.\<close>

definition forward :: "ivec3 \<Rightarrow> vec4 \<Rightarrow> vec4" where
  "forward shift p = matvec (transform_direction shift) (matvec inv_transform_scale p)"

definition inverse_matrix :: "ivec3 \<Rightarrow> mat4" where
  "inverse_matrix shift = matmul transform_scale (inv_transform_direction shift)"

definition forward_matrix :: "ivec3 \<Rightarrow> mat4" where
  "forward_matrix shift = matmul (transform_direction shift) inv_transform_scale"

record transformed =
  max_vals :: vec3
  min_vals :: vec3
  shift :: ivec3
  voxel_coords :: "vec4 list"

text \<open>
  Lines 60 to 72. \<open>max_vals\<close> and \<open>min_vals\<close> are taken over the first three rows of the
  scaled cloud, before the translation.
\<close>

definition amax_rows :: "vec4 list \<Rightarrow> py_error + vec3" where
  "amax_rows cols =
     and_then (np_amax (map (\<lambda>(x, y, z, w). x) cols)) (\<lambda>m0.
     and_then (np_amax (map (\<lambda>(x, y, z, w). y) cols)) (\<lambda>m1.
     and_then (np_amax (map (\<lambda>(x, y, z, w). z) cols)) (\<lambda>m2. Inr (m0, m1, m2))))"

definition amin_rows :: "vec4 list \<Rightarrow> py_error + vec3" where
  "amin_rows cols =
     and_then (np_amin (map (\<lambda>(x, y, z, w). x) cols)) (\<lambda>m0.
     and_then (np_amin (map (\<lambda>(x, y, z, w). y) cols)) (\<lambda>m1.
     and_then (np_amin (map (\<lambda>(x, y, z, w). z) cols)) (\<lambda>m2. Inr (m0, m1, m2))))"

definition coordinate_transform :: "vec3 list \<Rightarrow> py_error + transformed" where
  "coordinate_transform coords =
     (let coords_4d = map hstack_one coords;
          scaled = map (matvec inv_transform_scale) coords_4d
      in and_then (amax_rows scaled) (\<lambda>maxv.
         and_then (amin_rows scaled) (\<lambda>minv.
           (let s = min_absolute_value maxv minv
            in Inr \<lparr>max_vals = maxv, min_vals = minv, shift = s,
                    voxel_coords = map (matvec (transform_direction s)) scaled\<rparr>))))"

subsection \<open>Voxelization (lines 74 to 84)\<close>

text \<open>
  A three-dimensional array: its shape and its cells. Cells outside the shape are never
  read; \<open>np_zeros\<close> and \<open>np_pad1\<close> leave them zero.
\<close>

record ndarray3 =
  dims :: "nat \<times> nat \<times> nat"
  cells :: "nat \<times> nat \<times> nat \<Rightarrow> real"

definition np_zeros :: "nat \<times> nat \<times> nat \<Rightarrow> ndarray3" where
  "np_zeros shape = \<lparr>dims = shape, cells = (\<lambda>_. 0)\<rparr>"

text \<open>
  Python's index into an axis of length \<open>n\<close>: \<open>0 .. n-1\<close> as they are, \<open>-n .. -1\<close> counted from
  the end, IndexError otherwise.
\<close>

definition py_index :: "nat \<Rightarrow> int \<Rightarrow> py_error + nat" where
  "py_index n i =
     (if 0 \<le> i \<and> i < int n then Inr (nat i)
      else if - int n \<le> i \<and> i < 0 then Inr (nat (i + int n))
      else Inl IndexError)"

text \<open>\<^verbatim>\<open>a[x, y, z] = v\<close>.\<close>

fun setitem3 :: "ndarray3 \<Rightarrow> ivec3 \<Rightarrow> real \<Rightarrow> py_error + ndarray3" where
  "setitem3 a (x, y, z) v =
     (case dims a of (nx, ny, nz) \<Rightarrow>
        and_then (py_index nx x) (\<lambda>i.
        and_then (py_index ny y) (\<lambda>j.
        and_then (py_index nz z) (\<lambda>k.
          Inr (a\<lparr>cells := (cells a)((i, j, k) := v)\<rparr>)))))"

text \<open>Lines 78 and 79: \<^verbatim>\<open>for x, y, z in voxel_coords: voxels[x, y, z] = 1\<close>.\<close>

fun fill_voxels :: "ivec3 list \<Rightarrow> ndarray3 \<Rightarrow> py_error + ndarray3" where
  "fill_voxels [] voxels = Inr voxels"
| "fill_voxels (p # ps) voxels = and_then (setitem3 voxels p 1) (fill_voxels ps)"

text \<open>\<^verbatim>\<open>np.pad(a, 1, constant_values=0)\<close>: one layer of zeros on each of the six faces.\<close>

definition np_pad1 :: "ndarray3 \<Rightarrow> ndarray3" where
  "np_pad1 a =
     (case dims a of (nx, ny, nz) \<Rightarrow>
        \<lparr>dims = (nx + 2, ny + 2, nz + 2),
         cells = (\<lambda>(i, j, k).
           if 1 \<le> i \<and> i \<le> nx \<and> 1 \<le> j \<and> j \<le> ny \<and> 1 \<le> k \<and> k \<le> nz
           then cells a (i - 1, j - 1, k - 1) else 0)\<rparr>)"

text \<open>Line 74 and the shape of line 75: \<^verbatim>\<open>np.around(max_vals - min_vals).astype(int)\<close>, plus one.\<close>

fun voxel_volume_size :: "vec3 \<Rightarrow> vec3 \<Rightarrow> ivec3" where
  "voxel_volume_size (x1, y1, z1) (x2, y2, z2) =
     (np_around (x1 - x2), np_around (y1 - y2), np_around (z1 - z2))"

fun grid_shape :: "ivec3 \<Rightarrow> nat \<times> nat \<times> nat" where
  "grid_shape (sx, sy, sz) = (nat (sx + 1), nat (sy + 1), nat (sz + 1))"

text \<open>Line 77: \<^verbatim>\<open>np.around(voxel_coords[:3, :].T).astype(int)\<close>, one row per point.\<close>

fun around3 :: "vec3 \<Rightarrow> ivec3" where
  "around3 (x, y, z) = (np_around x, np_around y, np_around z)"

definition rounded_coords :: "transformed \<Rightarrow> ivec3 list" where
  "rounded_coords t = map (\<lambda>p. around3 (first3 p)) (voxel_coords t)"

text \<open>Lines 74 to 84 but for line 77: the grid, filled and padded.\<close>

definition voxel_grid :: "transformed \<Rightarrow> ivec3 list \<Rightarrow> py_error + ndarray3" where
  "voxel_grid t rounded =
     and_then (fill_voxels rounded (np_zeros (grid_shape (voxel_volume_size (max_vals t) (min_vals t)))))
       (\<lambda>voxels. Inr (np_pad1 voxels))"

subsection \<open>The mesh\<close>

text \<open>
  What \<^verbatim>\<open>measure.marching_cubes\<close> returns: vertices, faces and one normal per vertex (its
  fourth result, \<open>values\<close>, is not used).
\<close>

record mesh =
  mesh_verts :: "vec3 list"
  mesh_faces :: "(nat \<times> nat \<times> nat) list"
  mesh_normals :: "vec3 list"

subsection \<open>\<^verbatim>\<open>find_best_approximations\<close> (lines 147 to 168)\<close>

type_synonym flvec3 = "npfloat \<times> npfloat \<times> npfloat"
type_synonym flvec4 = "npfloat \<times> npfloat \<times> npfloat \<times> npfloat"

text \<open>
  The machine arithmetic of the compiled function, for a pool whose rows have the type
  \<open>'r\<close>:
  \<^item> \<open>distance vertex normal point\<close> is the evaluation of lines 155 to 157 for one row of the
    pool, in the floats of the machine: the value stored in \<open>distances[ii]\<close>, or the exception
    raised;
  \<^item> \<open>as_result point\<close> is the row of \<open>best_approximations\<close> that line 166 stores for the row
    \<open>point\<close> of the pool (\<open>best_approximations\<close> has the dtype of \<open>normals\<close>);
  \<^item> \<open>inf_row\<close> is the row of the pool that line 167 leaves, the conversion of
    \<^verbatim>\<open>[np.inf, np.inf, np.inf]\<close> to the dtype of the pool.
\<close>

record 'r machine =
  distance :: "vec3 \<Rightarrow> vec3 \<Rightarrow> 'r \<Rightarrow> py_error + npfloat"
  as_result :: "'r \<Rightarrow> flvec3"
  inf_row :: "'r"

text \<open>
  The inner loop, lines 154 to 157: \<open>distances[ii]\<close> is written for every row of \<open>coords\<close>,
  unless the evaluation for a row raises.
\<close>

fun fill_distances :: "('r \<Rightarrow> py_error + npfloat) \<Rightarrow> 'r list \<Rightarrow> nat \<Rightarrow> npfloat list \<Rightarrow>
    py_error + npfloat list" where
  "fill_distances d [] ii distances = Inr distances"
| "fill_distances d (point # rest) ii distances =
     and_then (d point) (\<lambda>x. fill_distances d rest (Suc ii) (distances[ii := x]))"

text \<open>
  Lines 152 to 165 for one vertex and its normal: the distances of all rows of \<open>coords\<close>, and
  \<^verbatim>\<open>np.argmin(np.absolute(distances))\<close>.
\<close>

definition minind :: "'r machine \<Rightarrow> vec3 \<Rightarrow> vec3 \<Rightarrow> 'r list \<Rightarrow> py_error + nat" where
  "minind m vertex normal coords =
     and_then
       (fill_distances (distance m vertex normal) coords 0 (replicate (length coords) (Fin 0)))
       (\<lambda>distances. np_argmin (map fl_abs distances))"

text \<open>
  The outer loop, lines 151 to 167, at index \<open>j\<close> of \<^verbatim>\<open>enumerate(zip(verts, normals))\<close>.
  The state is the pair of \<open>coords\<close>, which line 167 overwrites in place, and
  \<open>best_approximations\<close>.
\<close>

fun project :: "'r machine \<Rightarrow> (vec3 \<times> vec3) list \<Rightarrow> nat \<Rightarrow> 'r list \<Rightarrow> flvec3 list \<Rightarrow>
    (py_error + flvec3 list) \<times> 'r list" where
  "project m [] j coords best = (Inr best, coords)"
| "project m ((vertex, normal) # rest) j coords best =
     (case minind m vertex normal coords of
        Inl e \<Rightarrow> (Inl e, coords)
      | Inr i \<Rightarrow>
          project m rest (Suc j) (coords[i := inf_row m]) (best[j := as_result m (coords ! i)]))"

text \<open>
  The function on a machine. Line 149 makes \<open>best_approximations\<close> as zeros of the shape of
  \<open>normals\<close>. The result is what the call returns, \<open>best_approximations\<close> or the exception
  raised, and the contents in which it leaves the array \<open>coords\<close> that the caller passed.
\<close>

definition find_best_approximations_on :: "'r machine \<Rightarrow> 'r list \<Rightarrow> vec3 list \<Rightarrow> vec3 list \<Rightarrow>
    (py_error + flvec3 list) \<times> 'r list" where
  "find_best_approximations_on m coords verts normals =
     project m (zip verts normals) 0 coords (replicate (length normals) (Fin 0, Fin 0, Fin 0))"

subsection \<open>The two machines with exact arithmetic\<close>

text \<open>\<^verbatim>\<open>np.linalg.norm\<close> of a vector of three finite floats.\<close>

fun norm3 :: "vec3 \<Rightarrow> real" where
  "norm3 (a, b, c) = sqrt (a * a + b * b + c * c)"

text \<open>
  Lines 155 to 157 in exact arithmetic, for one row of floats. The division is the last
  operation; the compiled function raises ZeroDivisionError when the norm is zero.
\<close>

fun plane_distance :: "vec3 \<Rightarrow> vec3 \<Rightarrow> flvec3 \<Rightarrow> py_error + npfloat" where
  "plane_distance (v0, v1, v2) (n0, n1, n2) (p0, p1, p2) =
     (let d = - n0 * v0 - n1 * v1 - n2 * v2;
          s = fl_add (fl_add (fl_add (fl_scale n0 p0) (fl_scale n1 p1)) (fl_scale n2 p2)) (Fin d)
      in if norm3 (n0, n1, n2) = 0 then Inl ZeroDivisionError
         else Inr (fl_div s (norm3 (n0, n1, n2))))"

text \<open>The row \<^verbatim>\<open>[np.inf, np.inf, np.inf]\<close> of line 167 in an array of floats.\<close>

definition sentinel :: flvec3 where
  "sentinel = (PInf, PInf, PInf)"

text \<open>
  The same row after its conversion to int64: three times the least int64, \<open>- 2 ^ 63\<close>.
\<close>

definition int64_sentinel :: ivec3 where
  "int64_sentinel = (- (2 ^ 63), - (2 ^ 63), - (2 ^ 63))"

fun of_ivec3 :: "ivec3 \<Rightarrow> flvec3" where
  "of_ivec3 (x, y, z) = (Fin (of_int x), Fin (of_int y), Fin (of_int z))"

definition float64_pool :: "flvec3 machine" where
  "float64_pool = \<lparr>distance = plane_distance, as_result = (\<lambda>p. p), inf_row = sentinel\<rparr>"

definition int64_pool :: "ivec3 machine" where
  "int64_pool =
     \<lparr>distance = (\<lambda>vertex normal point. plane_distance vertex normal (of_ivec3 point)),
      as_result = of_ivec3, inf_row = int64_sentinel\<rparr>"

text \<open>
  \<^verbatim>\<open>find_best_approximations\<close> on a pool of floats, in exact arithmetic: the exception, or
  \<open>best_approximations\<close> and the final contents of the pool.
\<close>

definition find_best_approximations :: "flvec3 list \<Rightarrow> vec3 list \<Rightarrow> vec3 list \<Rightarrow>
    py_error + flvec3 list \<times> flvec3 list" where
  "find_best_approximations coords verts normals =
     (case find_best_approximations_on float64_pool coords verts normals of
        (Inl e, coords') \<Rightarrow> Inl e
      | (Inr best, coords') \<Rightarrow> Inr (best, coords'))"

subsection \<open>\<^verbatim>\<open>alphashape\<close> (lines 44 to 132)\<close>

text \<open>
  Arrays that are reachable under two names live in a store of arrays: the caller's cloud,
  which \<^verbatim>\<open>alphashape\<close> receives by reference, and the rounded voxel coordinates of line 77,
  which \<^verbatim>\<open>find_best_approximations\<close> receives by reference and overwrites. Every other
  array of \<^verbatim>\<open>alphashape\<close> is a fresh local that no other name reaches; it is kept as a value.

  The rounded coordinates are an int64 array (\<^verbatim>\<open>astype(int)\<close>).
\<close>

datatype ndarray = Float64 "vec3 list" | Int64 "ivec3 list"

type_synonym addr = nat

record store =
  arrays :: "addr \<Rightarrow> ndarray option"
  lim :: addr

text \<open>A new array gets the next address that was never used.\<close>

definition alloc :: "ndarray \<Rightarrow> store \<Rightarrow> addr \<times> store" where
  "alloc a h = (lim h, h\<lparr>arrays := (arrays h)(lim h \<mapsto> a), lim := Suc (lim h)\<rparr>)"

text \<open>
  The call of line 90 on the int64 array at address \<open>a\<close>: its rows are overwritten in
  place, also those that were overwritten before an exception.
\<close>

definition find_best_approximations_at :: "store \<Rightarrow> addr \<Rightarrow> vec3 list \<Rightarrow> vec3 list \<Rightarrow>
    (py_error + flvec3 list) \<times> store" where
  "find_best_approximations_at h a vs ns =
     (case arrays h a of
        Some (Int64 coords) \<Rightarrow>
          (case find_best_approximations_on int64_pool coords vs ns of
             (r, coords') \<Rightarrow> (r, h\<lparr>arrays := (arrays h)(a \<mapsto> Int64 coords')\<rparr>))
      | _ \<Rightarrow> (Inl TypeError, h))"

fun fl_hstack_one :: "flvec3 \<Rightarrow> flvec4" where
  "fl_hstack_one (x, y, z) = (x, y, z, Fin 1)"

fun fl_dot4 :: "vec4 \<Rightarrow> flvec4 \<Rightarrow> npfloat" where
  "fl_dot4 (a0, a1, a2, a3) (b0, b1, b2, b3) =
     fl_add (fl_add (fl_add (fl_scale a0 b0) (fl_scale a1 b1)) (fl_scale a2 b2)) (fl_scale a3 b3)"

fun fl_matvec :: "mat4 \<Rightarrow> flvec4 \<Rightarrow> flvec4" where
  "fl_matvec (r0, r1, r2, r3) v = (fl_dot4 r0 v, fl_dot4 r1 v, fl_dot4 r2 v, fl_dot4 r3 v)"

text \<open>
  The values \<^verbatim>\<open>alphashape\<close> has computed when it reaches its end: the padded grid, the
  mesh, \<open>verts_coords\<close> (line 88), \<open>best_approximations\<close> (line 90) and \<open>approx_coords\<close>
  (line 92). They are what the plotting branch would show.
\<close>

record artifacts =
  voxels :: ndarray3
  surface :: mesh
  verts_coords :: "vec4 list"
  best_approximations :: "flvec3 list"
  approx_coords :: "flvec4 list"

text \<open>
  Lines 87 to 92, given what line 90 returned: \<open>verts_coords\<close> and \<open>approx_coords\<close> are the
  inverse map applied to the mesh vertices and to the chosen points.
\<close>

definition transform_back :: "transformed \<Rightarrow> ndarray3 \<Rightarrow> mesh \<Rightarrow> (py_error + flvec3 list) \<times> store \<Rightarrow>
    (py_error + artifacts) \<times> store" where
  "transform_back t g m r =
     (case r of
        (Inl e, h2) \<Rightarrow> (Inl e, h2)
      | (Inr best, h2) \<Rightarrow>
          (Inr \<lparr>voxels = g, surface = m,
                verts_coords = map (\<lambda>v. matvec (inverse_matrix (shift t)) (hstack_one v)) (mesh_verts m),
                best_approximations = best,
                approx_coords = map (\<lambda>p. fl_matvec (inverse_matrix (shift t)) (fl_hstack_one p)) best\<rparr>,
           h2))"

text \<open>
  Lines 60 to 92 on the rows \<open>coords\<close> of the caller's cloud. The result is the exception or
  the artifacts, and the store as the run leaves it. Line 77 allocates the rounded
  coordinates; line 90 passes their address on.
\<close>

definition run_pipeline :: "(ndarray3 \<Rightarrow> py_error + mesh) \<Rightarrow> store \<Rightarrow> vec3 list \<Rightarrow>
    (py_error + artifacts) \<times> store" where
  "run_pipeline mc h coords =
     (case coordinate_transform coords of
        Inl e \<Rightarrow> (Inl e, h)
      | Inr t \<Rightarrow>
          (let rounded = rounded_coords t;
               (a, h1) = alloc (Int64 rounded) h
           in case and_then (voxel_grid t rounded) (\<lambda>g. and_then (mc g) (\<lambda>m. Inr (g, m))) of
                Inl e \<Rightarrow> (Inl e, h1)
              | Inr (g, m) \<Rightarrow>
                  transform_back t g m
                    (find_best_approximations_at h1 a (mesh_verts m) (mesh_normals m))))"

text \<open>The body of \<^verbatim>\<open>alphashape\<close> on the cloud at address \<open>c\<close> of the store \<open>h\<close>.\<close>

definition alphashape_body :: "(ndarray3 \<Rightarrow> py_error + mesh) \<Rightarrow> store \<Rightarrow> addr \<Rightarrow>
    (py_error + artifacts) \<times> store" where
  "alphashape_body mc h c =
     (case arrays h c of
        Some (Float64 coords) \<Rightarrow> run_pipeline mc h coords
      | _ \<Rightarrow> (Inl TypeError, h))"

text \<open>
  \<^verbatim>\<open>alphashape\<close> ends without a \<^verbatim>\<open>return\<close> statement (line 132 is the comment
  \<^verbatim>\<open># return result\<close>), so a run that completes returns Python's \<open>None\<close>: the \<open>None\<close> of
  the option type. \<open>Some\<close> would carry a returned list of coordinates.
\<close>

definition alphashape :: "(ndarray3 \<Rightarrow> py_error + mesh) \<Rightarrow> store \<Rightarrow> addr \<Rightarrow>
    (py_error + flvec4 list option) \<times> store" where
  "alphashape mc h c =
     (case alphashape_body mc h c of
        (Inl e, h') \<Rightarrow> (Inl e, h')
      | (Inr result, h') \<Rightarrow> (Inr None, h'))"

section \<open>Notions the claims are stated with\<close>

subsection \<open>The shift\<close>

text \<open>
  Whichever of the maximum and the minimum has the smaller absolute value; on a tie the
  maximum.
\<close>

definition closer_to_zero :: "real \<Rightarrow> real \<Rightarrow> real" where
  "closer_to_zero mx mn = (if \<bar>mn\<bar> < \<bar>mx\<bar> then mn else mx)"

text \<open>The voxel-space coordinates of the cloud along each axis: the microns over the spacing 25.\<close>

definition axis0 :: "vec3 list \<Rightarrow> real list" where
  "axis0 coords = map (\<lambda>(x, y, z). x / 25) coords"

definition axis1 :: "vec3 list \<Rightarrow> real list" where
  "axis1 coords = map (\<lambda>(x, y, z). y / 25) coords"

definition axis2 :: "vec3 list \<Rightarrow> real list" where
  "axis2 coords = map (\<lambda>(x, y, z). z / 25) coords"

text \<open>The scaled cloud of line 64.\<close>

definition scaled_cloud :: "vec3 list \<Rightarrow> vec4 list" where
  "scaled_cloud coords = map (matvec inv_transform_scale) (map hstack_one coords)"

subsection \<open>The selection of the projector\<close>

text \<open>
  \<open>first_minimum ds i\<close>: \<open>i\<close> is the first-encountered minimum of \<open>ds\<close>. \<open>first_nan ds i\<close>:
  \<open>i\<close> is the first NaN of \<open>ds\<close>. \<open>argmin_ok\<close> is what \<^verbatim>\<open>np.argmin\<close> returns: the first NaN
  if there is one, the first minimum otherwise.
\<close>

definition first_minimum :: "npfloat list \<Rightarrow> nat \<Rightarrow> bool" where
  "first_minimum ds i \<longleftrightarrow>
     i < length ds \<and> (\<forall>k < length ds. fl_ge (ds ! k) (ds ! i)) \<and> (\<forall>k < i. \<not> fl_ge (ds ! i) (ds ! k))"

definition first_nan :: "npfloat list \<Rightarrow> nat \<Rightarrow> bool" where
  "first_nan ds i \<longleftrightarrow> i < length ds \<and> is_nan (ds ! i) \<and> (\<forall>k < i. \<not> is_nan (ds ! k))"

definition argmin_ok :: "npfloat list \<Rightarrow> nat \<Rightarrow> bool" where
  "argmin_ok ds r \<longleftrightarrow>
     (if \<exists>k < length ds. is_nan (ds ! k) then first_nan ds r else first_minimum ds r)"

fun dot3 :: "vec3 \<Rightarrow> vec3 \<Rightarrow> real" where
  "dot3 (a0, a1, a2) (b0, b1, b2) = a0 * b0 + a1 * b1 + a2 * b2"


text \<open>
  The evaluation of the distance of the row \<open>p\<close> raises nothing, and the value it computes
  in that case.
\<close>

definition evaluates :: "'r machine \<Rightarrow> vec3 \<Rightarrow> vec3 \<Rightarrow> 'r \<Rightarrow> bool" where
  "evaluates m v n p \<longleftrightarrow> \<not> isl (distance m v n p)"

definition computed :: "'r machine \<Rightarrow> vec3 \<Rightarrow> vec3 \<Rightarrow> 'r \<Rightarrow> npfloat" where
  "computed m v n p = projr (distance m v n p)"

text \<open>
  What a step of the projector promises about the row it takes for the vertex \<open>v\<close> with the
  normal \<open>n\<close>: the machine has evaluated the distance of every row of the pool, consumed
  rows included, and \<open>i\<close> is an index of the pool that is, when none of the computed
  distances is NaN, the first-encountered minimum of their absolute values.
\<close>

definition selected :: "'r machine \<Rightarrow> vec3 \<Rightarrow> vec3 \<Rightarrow> 'r list \<Rightarrow> nat \<Rightarrow> bool" where
  "selected m v n pool i \<longleftrightarrow>
     i < length pool \<and> (\<forall>p \<in> set pool. evaluates m v n p) \<and>
     ((\<forall>p \<in> set pool. \<not> is_nan (computed m v n p)) \<longrightarrow>
        first_minimum (map (\<lambda>p. fl_abs (computed m v n p)) pool) i)"

text \<open>
  The greedy pass in mesh order: \<open>greedy m vns pool is chosen pool'\<close> when \<open>is\<close> holds, vertex
  by vertex, the index of the row taken for it and \<open>chosen\<close> the row stored for it, each taken
  row having been overwritten with \<open>inf_row m\<close> before the next vertex, and \<open>pool'\<close> is the
  pool at the end.
\<close>

inductive greedy :: "'r machine \<Rightarrow> (vec3 \<times> vec3) list \<Rightarrow> 'r list \<Rightarrow> nat list \<Rightarrow> flvec3 list \<Rightarrow>
    'r list \<Rightarrow> bool" for m :: "'r machine" where
  greedy_done: "greedy m [] pool [] [] pool"
| greedy_step: "selected m v n pool i \<Longrightarrow> greedy m rest (pool[i := inf_row m]) is chosen pool' \<Longrightarrow>
     greedy m ((v, n) # rest) pool (i # is) (as_result m (pool ! i) # chosen) pool'"

text \<open>The rows of the pool that line 167 has not overwritten.\<close>

definition live :: "'r machine \<Rightarrow> 'r list \<Rightarrow> nat" where
  "live m pool = length (filter (\<lambda>p. p \<noteq> inf_row m) pool)"



subsection \<open>Inputs of the examples\<close>

text \<open>A marching-cubes stand-in that returns one vertex with an axis-aligned normal.\<close>

definition one_vertex_mesh :: "ndarray3 \<Rightarrow> py_error + mesh" where
  "one_vertex_mesh g =
     Inr \<lparr>mesh_verts = [(1, 1, 1)], mesh_faces = [], mesh_normals = [(1, 0, 0)]\<rparr>"

text \<open>A store that holds the caller's cloud of one point at address 0.\<close>

definition one_point_store :: store where
  "one_point_store =
     \<lparr>arrays = (\<lambda>a. if a = 0 then Some (Float64 [(0, 0, 0)]) else None), lim = 1\<rparr>"

text \<open>A store whose cloud, at address 0, has no point.\<close>

definition empty_cloud_store :: store where
  "empty_cloud_store = \<lparr>arrays = (\<lambda>a. if a = 0 then Some (Float64 []) else None), lim = 1\<rparr>"

section \<open>Lemmas\<close>

subsection \<open>The order of floats and \<^verbatim>\<open>np.argmin\<close>\<close>

lemma fl_ge_trans: "fl_ge a b \<Longrightarrow> fl_ge b c \<Longrightarrow> fl_ge a c"
  by (cases a; cases b; cases c) auto

lemma fl_ge_total: "\<not> is_nan a \<Longrightarrow> \<not> is_nan b \<Longrightarrow> fl_ge a b \<or> fl_ge b a"
  by (cases a; cases b) auto

lemma fl_ge_refl: "\<not> is_nan a \<Longrightarrow> fl_ge a a"
  by (cases a) auto

lemma fl_ge_not_nan: "fl_ge a b \<Longrightarrow> \<not> is_nan a \<and> \<not> is_nan b"
  by (cases a; cases b) auto

lemma fl_ge_less_trans: "fl_ge a b \<Longrightarrow> \<not> fl_ge c b \<Longrightarrow> \<not> is_nan c \<Longrightarrow> \<not> fl_ge c a"
  by (cases a; cases b; cases c) auto

lemma argmin_scan_spec:
  assumes "min_ind < length pre" "pre ! min_ind = mp"
    "is_nan mp \<Longrightarrow> \<forall>k < min_ind. \<not> is_nan (pre ! k)"
    "\<not> is_nan mp \<Longrightarrow> (\<forall>k < length pre. fl_ge (pre ! k) mp) \<and> (\<forall>k < min_ind. \<not> fl_ge mp (pre ! k))"
  shows "argmin_ok (pre @ xs) (argmin_scan xs (length pre) min_ind mp)"
  using assms
proof (induction xs arbitrary: pre min_ind mp)
  case Nil
  show ?case
  proof (cases "is_nan mp")
    case True
    with Nil show ?thesis by (auto simp: argmin_ok_def first_nan_def)
  next
    case False
    with Nil have "\<forall>k < length pre. \<not> is_nan (pre ! k)" using fl_ge_not_nan by blast
    with Nil False show ?thesis by (auto simp: argmin_ok_def first_minimum_def)
  qed
next
  case (Cons x xs)
  show ?case
  proof (cases "is_nan mp")
    case True
    with Cons.prems show ?thesis by (auto simp: argmin_ok_def first_nan_def nth_append)
  next
    case nn: False
    from Cons.prems(4)[OF nn] have ge: "\<forall>k < length pre. fl_ge (pre ! k) mp"
      and lt: "\<forall>k < min_ind. \<not> fl_ge mp (pre ! k)" by auto
    show ?thesis
    proof (cases "fl_ge x mp")
      case True
      have "argmin_ok ((pre @ [x]) @ xs) (argmin_scan xs (length (pre @ [x])) min_ind mp)"
      proof (rule Cons.IH)
        show "min_ind < length (pre @ [x])" using Cons.prems(1) by simp
        show "(pre @ [x]) ! min_ind = mp" using Cons.prems(1,2) by (simp add: nth_append)
        show "is_nan mp \<Longrightarrow> \<forall>k<min_ind. \<not> is_nan ((pre @ [x]) ! k)" using nn by simp
        show "\<not> is_nan mp \<Longrightarrow> (\<forall>k<length (pre @ [x]). fl_ge ((pre @ [x]) ! k) mp) \<and>
            (\<forall>k<min_ind. \<not> fl_ge mp ((pre @ [x]) ! k))"
          using ge lt True Cons.prems(1) by (auto simp: nth_append less_Suc_eq)
      qed
      with True nn show ?thesis by simp
    next
      case False
      have "argmin_ok ((pre @ [x]) @ xs) (argmin_scan xs (length (pre @ [x])) (length pre) x)"
      proof (rule Cons.IH)
        show "length pre < length (pre @ [x])" by simp
        show "(pre @ [x]) ! length pre = x" by simp
        show "is_nan x \<Longrightarrow> \<forall>k<length pre. \<not> is_nan ((pre @ [x]) ! k)"
          using ge fl_ge_not_nan by (auto simp: nth_append)
        show "\<not> is_nan x \<Longrightarrow> (\<forall>k<length (pre @ [x]). fl_ge ((pre @ [x]) ! k) x) \<and>
            (\<forall>k<length pre. \<not> fl_ge x ((pre @ [x]) ! k))"
        proof -
          assume nx: "\<not> is_nan x"
          have mx: "fl_ge mp x" using fl_ge_total[OF nx nn] False by auto
          have a: "\<forall>k<length pre. fl_ge (pre ! k) x" using ge mx fl_ge_trans by blast
          have b: "\<forall>k<length pre. \<not> fl_ge x (pre ! k)" using ge False nx fl_ge_less_trans by blast
          show ?thesis using a b nx by (auto simp: nth_append less_Suc_eq fl_ge_refl)
        qed
      qed
      with False nn show ?thesis by simp
    qed
  qed
qed

lemma np_argmin_spec:
  assumes "ds \<noteq> []"
  shows "\<exists>i. np_argmin ds = Inr i \<and> i < length ds \<and> argmin_ok ds i"
proof -
  obtain x xs where ds: "ds = x # xs" using assms by (cases ds) auto
  have "argmin_ok ([x] @ xs) (argmin_scan xs (length [x]) 0 x)"
    by (rule argmin_scan_spec) (auto simp: fl_ge_refl)
  then show ?thesis
    by (auto simp: ds np_argmin_def argmin_ok_def first_nan_def first_minimum_def split: if_splits)
qed

subsection \<open>The projector as a greedy pass\<close>

lemma is_nan_abs: "is_nan (fl_abs x) = is_nan x"
  by (cases x) auto

lemma evaluates_iff: "evaluates m v n p \<longleftrightarrow> (\<exists>x. distance m v n p = Inr x)"
  by (cases "distance m v n p") (simp_all add: evaluates_def)

lemma computed_eq: "distance m v n p = Inr x \<Longrightarrow> computed m v n p = x"
  by (simp add: computed_def)


lemma selected_iff:
  "selected m v n pool i \<longleftrightarrow>
     i < length pool \<and>
     (\<exists>ds. length ds = length pool \<and>
        (\<forall>k < length pool. distance m v n (pool ! k) = Inr (ds ! k)) \<and>
        ((\<forall>k < length pool. \<not> is_nan (ds ! k)) \<longrightarrow> first_minimum (map fl_abs ds) i))"
proof
  assume s: "selected m v n pool i"
  let ?ds = "map (computed m v n) pool"
  have ev: "distance m v n (pool ! k) = Inr (?ds ! k)" if "k < length pool" for k
  proof -
    have "evaluates m v n (pool ! k)" using s that by (simp add: selected_def)
    then show ?thesis using that by (auto simp: evaluates_iff computed_eq)
  qed
  have m: "map (\<lambda>p. fl_abs (computed m v n p)) pool = map fl_abs ?ds" by simp
  have "(\<forall>k < length pool. \<not> is_nan (?ds ! k)) \<longrightarrow> first_minimum (map fl_abs ?ds) i"
  proof
    assume "\<forall>k < length pool. \<not> is_nan (?ds ! k)"
    then have "\<forall>p \<in> set pool. \<not> is_nan (computed m v n p)" by (auto simp: in_set_conv_nth)
    with s show "first_minimum (map fl_abs ?ds) i" unfolding m[symmetric] by (simp add: selected_def)
  qed
  moreover have "length ?ds = length pool" by simp
  moreover have "i < length pool" using s by (simp add: selected_def)
  ultimately show "i < length pool \<and>
     (\<exists>ds. length ds = length pool \<and>
        (\<forall>k < length pool. distance m v n (pool ! k) = Inr (ds ! k)) \<and>
        ((\<forall>k < length pool. \<not> is_nan (ds ! k)) \<longrightarrow> first_minimum (map fl_abs ds) i))"
    using ev by blast
next
  assume "i < length pool \<and>
     (\<exists>ds. length ds = length pool \<and>
        (\<forall>k < length pool. distance m v n (pool ! k) = Inr (ds ! k)) \<and>
        ((\<forall>k < length pool. \<not> is_nan (ds ! k)) \<longrightarrow> first_minimum (map fl_abs ds) i))"
  then obtain ds where il: "i < length pool" and l: "length ds = length pool"
    and d: "\<forall>k < length pool. distance m v n (pool ! k) = Inr (ds ! k)"
    and f: "(\<forall>k < length pool. \<not> is_nan (ds ! k)) \<longrightarrow> first_minimum (map fl_abs ds) i"
    by blast
  have c: "computed m v n (pool ! k) = ds ! k" if "k < length pool" for k
    using d that by (simp add: computed_eq)
  have ds: "map (computed m v n) pool = ds"
    using l c by (intro nth_equalityI) simp_all
  have ev: "\<forall>p \<in> set pool. evaluates m v n p"
    using d by (auto simp: in_set_conv_nth evaluates_iff)
  have m: "map (\<lambda>p. fl_abs (computed m v n p)) pool = map fl_abs ds"
    unfolding ds[symmetric] by simp
  have "first_minimum (map (\<lambda>p. fl_abs (computed m v n p)) pool) i"
    if "\<forall>p \<in> set pool. \<not> is_nan (computed m v n p)"
  proof -
    have "\<forall>k < length pool. \<not> is_nan (ds ! k)" using that c by (metis nth_mem)
    with f show ?thesis unfolding m by simp
  qed
  with il ev show "selected m v n pool i" by (simp add: selected_def)
qed

lemma fill_distances_Inr:
  "fill_distances d ps ii ds = Inr r \<Longrightarrow> ii + length ps = length ds \<Longrightarrow>
   \<exists>xs. r = take ii ds @ xs \<and> length xs = length ps \<and> (\<forall>k < length ps. d (ps ! k) = Inr (xs ! k))"
proof (induction ps arbitrary: ii ds)
  case Nil
  then show ?case by simp
next
  case (Cons p ps)
  from Cons.prems(1) obtain x where x: "d p = Inr x"
    and r: "fill_distances d ps (Suc ii) (ds[ii := x]) = Inr r"
    by (cases "d p") (auto simp: and_then_def)
  have "Suc ii + length ps = length (ds[ii := x])" using Cons.prems(2) by simp
  from Cons.IH[OF r this] obtain xs where xs: "r = take (Suc ii) (ds[ii := x]) @ xs"
    "length xs = length ps" "\<forall>k < length ps. d (ps ! k) = Inr (xs ! k)" by blast
  have t: "take (Suc ii) (ds[ii := x]) = take ii ds @ [x]"
    using Cons.prems(2) by (simp add: take_Suc_conv_app_nth)
  have "r = take ii ds @ (x # xs)" using xs(1) t by simp
  moreover have "length (x # xs) = length (p # ps)" using xs(2) by simp
  moreover have "\<forall>k < length (p # ps). d ((p # ps) ! k) = Inr ((x # xs) ! k)"
    using x xs(3) by (auto simp: nth_Cons split: nat.splits)
  ultimately show ?case by blast
qed

lemma fill_distances_Inl:
  "fill_distances d ps ii ds = Inl e \<Longrightarrow> \<exists>p \<in> set ps. d p = Inl e"
proof (induction ps arbitrary: ii ds)
  case Nil
  then show ?case by simp
next
  case (Cons p ps)
  show ?case
  proof (cases "d p")
    case (Inl e')
    with Cons.prems show ?thesis by (simp add: and_then_def)
  next
    case (Inr x)
    with Cons.prems have "fill_distances d ps (Suc ii) (ds[ii := x]) = Inl e"
      by (simp add: and_then_def)
    from Cons.IH[OF this] show ?thesis by auto
  qed
qed

lemma minind_Inr:
  assumes "minind m v n coords = Inr i"
  shows "selected m v n coords i"
proof -
  from assms obtain r where r: "fill_distances (distance m v n) coords 0 (replicate (length coords) (Fin 0)) = Inr r"
    and a: "np_argmin (map fl_abs r) = Inr i"
    by (cases "fill_distances (distance m v n) coords 0 (replicate (length coords) (Fin 0))")
       (auto simp: minind_def and_then_def)
  from fill_distances_Inr[OF r] obtain xs where xs: "r = xs" "length xs = length coords"
    "\<forall>k < length coords. distance m v n (coords ! k) = Inr (xs ! k)" by auto
  have ne: "map fl_abs xs \<noteq> []" using a xs(1) by (auto simp: np_argmin_def)
  from np_argmin_spec[OF ne] a xs(1) have il: "i < length xs" and ok: "argmin_ok (map fl_abs xs) i"
    by auto
  have "(\<forall>k < length coords. \<not> is_nan (xs ! k)) \<longrightarrow> first_minimum (map fl_abs xs) i"
    using ok xs(2) by (auto simp: argmin_ok_def is_nan_abs)
  with il xs show ?thesis unfolding selected_iff by auto
qed

lemma minind_Inl:
  assumes "minind m v n coords = Inl e" "coords \<noteq> []"
  shows "\<exists>p \<in> set coords. distance m v n p = Inl e"
proof (cases "fill_distances (distance m v n) coords 0 (replicate (length coords) (Fin 0))")
  case (Inl e')
  with assms(1) have "e' = e" by (simp add: minind_def and_then_def)
  with Inl fill_distances_Inl show ?thesis by blast
next
  case (Inr r)
  from fill_distances_Inr[OF Inr] have "length r = length coords" by auto
  with assms(2) have "map fl_abs r \<noteq> []" by auto
  from np_argmin_spec[OF this] obtain i where "np_argmin (map fl_abs r) = Inr i" by blast
  with Inr assms(1) show ?thesis by (simp add: minind_def and_then_def)
qed

lemma selected_less: "selected m v n pool i \<Longrightarrow> i < length pool"
  by (simp add: selected_def)

lemma project_greedy:
  assumes "coords \<noteq> []" "j + length vns \<le> length best"
  shows "(\<exists>is chosen coords'. project m vns j coords best =
            (Inr (take j best @ chosen @ drop (j + length vns) best), coords')
          \<and> greedy m vns coords is chosen coords')
       \<or> (\<exists>vn p e coords'. vn \<in> set vns \<and> (p \<in> set coords \<or> p = inf_row m) \<and>
            distance m (fst vn) (snd vn) p = Inl e \<and>
            project m vns j coords best = (Inl e, coords'))"
  using assms
proof (induction vns arbitrary: j coords best)
  case Nil
  have "greedy m [] coords [] [] coords" by (rule greedy_done)
  then have "\<exists>is chosen coords'. project m [] j coords best =
            (Inr (take j best @ chosen @ drop (j + length []) best), coords')
          \<and> greedy m [] coords is chosen coords'"
    by (intro exI[of _ "[]"] exI[of _ coords]) simp
  then show ?case by blast
next
  case (Cons vn rest)
  obtain v n where vn: "vn = (v, n)" by (cases vn)
  show ?case
  proof (cases "minind m v n coords")
    case (Inl e)
    from minind_Inl[OF Inl Cons.prems(1)] obtain p where "p \<in> set coords"
      "distance m v n p = Inl e" by blast
    moreover have "project m (vn # rest) j coords best = (Inl e, coords)"
      using Inl by (simp add: vn)
    ultimately have "\<exists>vn' p e coords'. vn' \<in> set (vn # rest) \<and>
        (p \<in> set coords \<or> p = inf_row m) \<and> distance m (fst vn') (snd vn') p = Inl e \<and>
        project m (vn # rest) j coords best = (Inl e, coords')"
      by (intro exI[of _ vn] exI[of _ p] exI[of _ e] exI[of _ coords]) (simp add: vn)
    then show ?thesis by blast
  next
    case (Inr i)
    have sel: "selected m v n coords i" using Inr by (rule minind_Inr)
    let ?c = "coords[i := inf_row m]" and ?b = "best[j := as_result m (coords ! i)]"
    have p: "project m (vn # rest) j coords best = project m rest (Suc j) ?c ?b"
      using Inr by (simp add: vn)
    have c: "?c \<noteq> []" using Cons.prems(1) by simp
    have b: "Suc j + length rest \<le> length ?b" using Cons.prems(2) by simp
    have jl: "j < length best" using Cons.prems(2) by simp
    have t: "take (Suc j) ?b = take j best @ [as_result m (coords ! i)]"
      using jl by (simp add: take_Suc_conv_app_nth)
    have d: "drop (Suc j + length rest) ?b = drop (j + length (vn # rest)) best" by simp
    from Cons.IH[OF c b] show ?thesis
    proof
      assume "\<exists>is chosen coords'. project m rest (Suc j) ?c ?b =
            (Inr (take (Suc j) ?b @ chosen @ drop (Suc j + length rest) ?b), coords')
          \<and> greedy m rest ?c is chosen coords'"
      then obtain "is" chosen coords' where
        r: "project m rest (Suc j) ?c ?b =
             (Inr (take (Suc j) ?b @ chosen @ drop (Suc j + length rest) ?b), coords')"
        and g: "greedy m rest ?c is chosen coords'" by blast
      have "project m (vn # rest) j coords best =
          (Inr (take j best @ (as_result m (coords ! i) # chosen) @
                drop (j + length (vn # rest)) best), coords')"
        using p r t d by simp
      moreover have "greedy m (vn # rest) coords (i # is) (as_result m (coords ! i) # chosen) coords'"
        unfolding vn using sel g by (rule greedy_step)
      ultimately show ?thesis by blast
    next
      assume "\<exists>vn' p e coords'. vn' \<in> set rest \<and> (p \<in> set ?c \<or> p = inf_row m) \<and>
            distance m (fst vn') (snd vn') p = Inl e \<and>
            project m rest (Suc j) ?c ?b = (Inl e, coords')"
      then obtain vn' q e coords' where q: "vn' \<in> set rest" "q \<in> set ?c \<or> q = inf_row m"
        "distance m (fst vn') (snd vn') q = Inl e"
        "project m rest (Suc j) ?c ?b = (Inl e, coords')" by blast
      have "q \<in> set coords \<or> q = inf_row m"
        using q(2) set_update_subset_insert[of coords i "inf_row m"] by auto
      with q have "vn' \<in> set (vn # rest) \<and> (q \<in> set coords \<or> q = inf_row m) \<and>
        distance m (fst vn') (snd vn') q = Inl e \<and>
        project m (vn # rest) j coords best = (Inl e, coords')" using p by simp
      then show ?thesis by blast
    qed
  qed
qed

lemma greedy_length:
  "greedy m vns pool is chosen pool' \<Longrightarrow>
   length is = length vns \<and> length chosen = length vns \<and> length pool' = length pool"
  by (induction rule: greedy.induct) auto

lemma find_best_approximations_on_greedy:
  assumes "coords \<noteq> []" "length verts = length normals"
  shows "(\<exists>is best coords'. find_best_approximations_on m coords verts normals = (Inr best, coords')
          \<and> greedy m (zip verts normals) coords is best coords')
       \<or> (\<exists>vn p e coords'. vn \<in> set (zip verts normals) \<and> (p \<in> set coords \<or> p = inf_row m) \<and>
            distance m (fst vn) (snd vn) p = Inl e \<and>
            find_best_approximations_on m coords verts normals = (Inl e, coords'))"
proof -
  let ?z = "replicate (length normals) (Fin 0, Fin 0, Fin 0)"
  have l: "0 + length (zip verts normals) \<le> length ?z" using assms(2) by simp
  have d: "drop (0 + length (zip verts normals)) ?z = []" using assms(2) by simp
  from project_greedy[OF assms(1) l, of m] show ?thesis
    unfolding find_best_approximations_on_def d by simp
qed

lemma minind_error:
  assumes "minind m v n coords = Inl e"
  shows "e = ValueError \<or> (\<exists>p. distance m v n p = Inl e)"
proof (cases "coords = []")
  case True
  with assms show ?thesis by (simp add: minind_def and_then_def np_argmin_def)
next
  case False
  from minind_Inl[OF assms False] show ?thesis by blast
qed

lemma project_error:
  "project m vns j coords best = (Inl e, coords') \<Longrightarrow>
   e = ValueError \<or> (\<exists>vn \<in> set vns. \<exists>p. distance m (fst vn) (snd vn) p = Inl e)"
proof (induction vns arbitrary: j coords best)
  case Nil
  then show ?case by simp
next
  case (Cons vn rest)
  obtain v n where vn: "vn = (v, n)" by (cases vn)
  show ?case
  proof (cases "minind m v n coords")
    case (Inl e')
    with Cons.prems have "e' = e" by (simp add: vn)
    with minind_error[OF Inl] show ?thesis by (auto simp: vn)
  next
    case (Inr i)
    with Cons.prems have "project m rest (Suc j) (coords[i := inf_row m])
        (best[j := as_result m (coords ! i)]) = (Inl e, coords')" by (simp add: vn)
    from Cons.IH[OF this] show ?thesis by auto
  qed
qed

lemma plane_distance_error:
  "plane_distance v n p = Inl e \<longleftrightarrow> norm3 n = 0 \<and> e = ZeroDivisionError"
  by (cases v; cases n; cases p) (auto simp: Let_def simp del: norm3.simps)

lemma plane_distance_finite:
  "norm3 n \<noteq> 0 \<Longrightarrow> plane_distance v n (Fin p0, Fin p1, Fin p2) =
     Inr (Fin ((dot3 n (p0, p1, p2) - dot3 n v) / norm3 n))"
  by (cases v; cases n) (simp add: Let_def del: norm3.simps)

lemma live_le_length: "live m pool \<le> length pool"
  by (simp add: live_def)

lemma live_update:
  "i < length pool \<Longrightarrow> pool ! i \<noteq> inf_row m \<Longrightarrow> Suc (live m (pool[i := inf_row m])) = live m pool"
  unfolding live_def
proof (induction pool arbitrary: i)
  case Nil
  then show ?case by simp
next
  case (Cons p ps)
  then show ?case by (cases i) auto
qed

lemma greedy_no_sentinel_live:
  "greedy m vns pool is chosen pool' \<Longrightarrow> as_result m (inf_row m) \<notin> set chosen \<Longrightarrow>
   length vns \<le> live m pool"
proof (induction rule: greedy.induct)
  case (greedy_done pool)
  then show ?case by simp
next
  case (greedy_step v n pool i rest "is" chosen pool')
  have "i < length pool" using greedy_step.hyps(1) by (rule selected_less)
  moreover have "pool ! i \<noteq> inf_row m" using greedy_step.prems by auto
  ultimately have "Suc (live m (pool[i := inf_row m])) = live m pool" by (rule live_update)
  moreover have "length rest \<le> live m (pool[i := inf_row m])"
    using greedy_step.IH greedy_step.prems by simp
  ultimately show ?case by simp
qed








subsection \<open>The coordinate transform and the grid\<close>

lemma column_argmin_abs_eq: "column_argmin_abs x1 x2 = (if \<bar>x2\<bar> < \<bar>x1\<bar> then 1 else 0)"
  by (simp add: column_argmin_abs_def)

lemma min_absolute_value_eq:
  "min_absolute_value (x1, y1, z1) (x2, y2, z2) =
     (py_int (closer_to_zero x1 x2), py_int (closer_to_zero y1 y2), py_int (closer_to_zero z1 z2))"
  by (simp add: column_argmin_abs_eq closer_to_zero_def)

lemma np_amax_Max: "xs \<noteq> [] \<Longrightarrow> np_amax xs = Inr (Max (set xs))"
  by (cases xs) (simp_all add: np_amax_def Max.set_eq_fold [symmetric])

lemma np_amin_Min: "xs \<noteq> [] \<Longrightarrow> np_amin xs = Inr (Min (set xs))"
  by (cases xs) (simp_all add: np_amin_def Min.set_eq_fold [symmetric])

lemma scaled_cloud_eq: "scaled_cloud coords = map (\<lambda>(x, y, z). (x / 25, y / 25, z / 25, 1)) coords"
  by (induction coords) (auto simp: scaled_cloud_def inv_transform_scale_def)

lemma scaled_axes:
  "map (\<lambda>(x, y, z, w). x) (scaled_cloud coords) = axis0 coords"
  "map (\<lambda>(x, y, z, w). y) (scaled_cloud coords) = axis1 coords"
  "map (\<lambda>(x, y, z, w). z) (scaled_cloud coords) = axis2 coords"
  by (induction coords) (auto simp: scaled_cloud_eq axis0_def axis1_def axis2_def)

lemma axes_nonempty: "coords \<noteq> [] \<Longrightarrow> axis0 coords \<noteq> [] \<and> axis1 coords \<noteq> [] \<and> axis2 coords \<noteq> []"
  by (simp add: axis0_def axis1_def axis2_def)

lemma coordinate_transform_eq:
  assumes "coords \<noteq> []"
  shows "coordinate_transform coords =
    Inr \<lparr>max_vals = (Max (set (axis0 coords)), Max (set (axis1 coords)), Max (set (axis2 coords))),
         min_vals = (Min (set (axis0 coords)), Min (set (axis1 coords)), Min (set (axis2 coords))),
         shift = (py_int (closer_to_zero (Max (set (axis0 coords))) (Min (set (axis0 coords)))),
                  py_int (closer_to_zero (Max (set (axis1 coords))) (Min (set (axis1 coords)))),
                  py_int (closer_to_zero (Max (set (axis2 coords))) (Min (set (axis2 coords))))),
         voxel_coords = map (matvec (transform_direction
                 (py_int (closer_to_zero (Max (set (axis0 coords))) (Min (set (axis0 coords)))),
                  py_int (closer_to_zero (Max (set (axis1 coords))) (Min (set (axis1 coords)))),
                  py_int (closer_to_zero (Max (set (axis2 coords))) (Min (set (axis2 coords))))))) (scaled_cloud coords)\<rparr>"
proof -
  note ne = axes_nonempty[OF assms]
  have mx: "amax_rows (scaled_cloud coords) =
      Inr (Max (set (axis0 coords)), Max (set (axis1 coords)), Max (set (axis2 coords)))"
    using ne by (simp add: amax_rows_def scaled_axes np_amax_Max and_then_def)
  have mn: "amin_rows (scaled_cloud coords) =
      Inr (Min (set (axis0 coords)), Min (set (axis1 coords)), Min (set (axis2 coords)))"
    using ne by (simp add: amin_rows_def scaled_axes np_amin_Min and_then_def)
  show ?thesis
    unfolding coordinate_transform_def Let_def scaled_cloud_def[symmetric]
    by (simp add: mx mn and_then_def min_absolute_value_eq del: min_absolute_value.simps)
qed

lemma coordinate_transform_empty: "coordinate_transform [] = Inl ValueError"
  by (simp add: coordinate_transform_def amax_rows_def np_amax_def and_then_def)

subsection \<open>The store\<close>

lemma find_best_approximations_at_frame:
  "find_best_approximations_at h a vs ns = (r, h') \<Longrightarrow>
   lim h' = lim h \<and> (\<forall>b. b \<noteq> a \<longrightarrow> arrays h' b = arrays h b)"
  by (auto simp: find_best_approximations_at_def split: option.splits ndarray.splits sum.splits prod.splits)

lemma transform_back_store: "transform_back t g m (r, h2) = (r', h') \<Longrightarrow> h' = h2"
  by (auto simp: transform_back_def split: sum.splits)

lemma run_pipeline_frame:
  assumes "run_pipeline mc h coords = (r, h')"
  shows "\<forall>b. b \<noteq> lim h \<longrightarrow> arrays h' b = arrays h b"
proof (cases "coordinate_transform coords")
  case (Inl e)
  with assms show ?thesis by (simp add: run_pipeline_def)
next
  case (Inr t)
  let ?h1 = "h\<lparr>arrays := (arrays h)(lim h \<mapsto> Int64 (rounded_coords t)), lim := Suc (lim h)\<rparr>"
  have h1: "\<forall>b. b \<noteq> lim h \<longrightarrow> arrays ?h1 b = arrays h b" by simp
  show ?thesis
  proof (cases "and_then (voxel_grid t (rounded_coords t)) (\<lambda>g. and_then (mc g) (\<lambda>m. Inr (g, m)))")
    case (Inl e)
    with assms Inr have "h' = ?h1" by (simp add: run_pipeline_def alloc_def Let_def)
    with h1 show ?thesis by simp
  next
    case gm: (Inr gm)
    obtain g m where gm': "gm = (g, m)" by (cases gm)
    obtain r2 h2 where f: "find_best_approximations_at ?h1 (lim h) (mesh_verts m) (mesh_normals m) = (r2, h2)"
      by (cases "find_best_approximations_at ?h1 (lim h) (mesh_verts m) (mesh_normals m)")
    from assms Inr gm gm' f have "transform_back t g m (r2, h2) = (r, h')"
      by (simp add: run_pipeline_def alloc_def Let_def)
    then have "h' = h2" by (rule transform_back_store)
    moreover from find_best_approximations_at_frame[OF f]
    have "\<forall>b. b \<noteq> lim h \<longrightarrow> arrays h2 b = arrays ?h1 b" by blast
    ultimately show ?thesis using h1 by simp
  qed
qed

lemma coordinate_transform_origin: "coordinate_transform [(0, 0, 0)] =
   Inr \<lparr>max_vals = (0, 0, 0), min_vals = (0, 0, 0), shift = (0, 0, 0), voxel_coords = [(0, 0, 0, 1)]\<rparr>"
  by (simp add: coordinate_transform_def amax_rows_def amin_rows_def np_amax_def np_amin_def and_then_def
      inv_transform_scale_def column_argmin_abs_def py_int_def)

lemma alphashape_body_origin: "fst (alphashape_body one_vertex_mesh one_point_store 0) =
   Inr \<lparr>voxels = np_pad1 \<lparr>dims = (1, 1, 1), cells = (\<lambda>_. 0)((0, 0, 0) := 1)\<rparr>,
        surface = \<lparr>mesh_verts = [(1, 1, 1)], mesh_faces = [], mesh_normals = [(1, 0, 0)]\<rparr>,
        verts_coords = [(25, 25, 25, 1)],
        best_approximations = [(Fin 0, Fin 0, Fin 0)],
        approx_coords = [(Fin 0, Fin 0, Fin 0, Fin 1)]\<rparr>"
  by (simp add: alphashape_body_def one_point_store_def run_pipeline_def coordinate_transform_origin rounded_coords_def
      np_around_def alloc_def voxel_grid_def np_zeros_def py_index_def and_then_def
      one_vertex_mesh_def find_best_approximations_at_def find_best_approximations_on_def
      int64_pool_def minind_def np_argmin_def transform_back_def inverse_matrix_def
      transform_scale_def)

lemma alphashape_body_origin_store:
  "arrays (snd (alphashape_body one_vertex_mesh one_point_store 0)) 1 = Some (Int64 [int64_sentinel])"
  by (simp add: alphashape_body_def one_point_store_def run_pipeline_def coordinate_transform_origin
      rounded_coords_def np_around_def alloc_def voxel_grid_def np_zeros_def py_index_def and_then_def
      one_vertex_mesh_def find_best_approximations_at_def find_best_approximations_on_def
      int64_pool_def minind_def np_argmin_def transform_back_def)

lemma alphashape_store: "snd (alphashape mc h c) = snd (alphashape_body mc h c)"
  by (simp add: alphashape_def split: prod.splits sum.splits)


section \<open>The claims\<close>

subsection \<open>C9: the inverse transform\<close>

text \<open>
  Claim C9. The inverse affine map is the algebraic inverse of the forward map. The source
  applies \<open>inv_transform_scale\<close> and then \<open>transform_direction\<close> on the way in (\<open>forward\<close>, the
  product \<open>forward_matrix\<close>) and the product \<open>transform_scale @ inv_transform_direction\<close> on the
  way out (\<open>inverse_matrix\<close>). For every shift and every homogeneous point \<open>p\<close>: the two
  matrices multiply to the identity in both orders, forward followed by inverse gives \<open>p\<close>
  back, and forward of inverse of forward of \<open>p\<close> is forward of \<open>p\<close>. The arithmetic is that of
  the reals, so the identities are exact here.
\<close>

theorem inverse_is_algebraic_inverse:
  "matmul (inverse_matrix s) (forward_matrix s) = identity4 \<and>
   matmul (forward_matrix s) (inverse_matrix s) = identity4 \<and>
   matvec (forward_matrix s) p = forward s p \<and>
   matvec (inverse_matrix s) (forward s p) = p \<and>
   forward s (matvec (inverse_matrix s) (forward s p)) = forward s p"
  by (cases s; cases p) (simp add: inverse_matrix_def forward_matrix_def forward_def
      transform_scale_def inv_transform_scale_def identity4_def)

subsection \<open>C8: the shift\<close>

text \<open>
  Claim C8, amended. For a non-empty cloud the shift is, per axis, Python's \<open>int\<close> (the
  truncation towards zero) of whichever of the maximum and the minimum of the voxel-space
  coordinates has the smaller absolute value, the maximum on a tie.
\<close>

theorem shift_is_truncated_closer_extremum:
  assumes "coords \<noteq> []"
  shows "\<exists>t. coordinate_transform coords = Inr t \<and>
    max_vals t = (Max (set (axis0 coords)), Max (set (axis1 coords)), Max (set (axis2 coords))) \<and>
    min_vals t = (Min (set (axis0 coords)), Min (set (axis1 coords)), Min (set (axis2 coords))) \<and>
    shift t = (py_int (closer_to_zero (Max (set (axis0 coords))) (Min (set (axis0 coords)))),
               py_int (closer_to_zero (Max (set (axis1 coords))) (Min (set (axis1 coords)))),
               py_int (closer_to_zero (Max (set (axis2 coords))) (Min (set (axis2 coords)))))"
  using coordinate_transform_eq[OF assms] by simp

text \<open>
  A cloud of two points with voxel-space coordinates \<open>(4.4, -4.4, 2)\<close> and \<open>(6, -2, 2)\<close>: the
  shift is \<open>(4, -2, 2)\<close>.
\<close>

theorem shift_is_truncated_closer_extremum_witness:
  "([(110, - 110, 50), (150, - 50, 50)] :: vec3 list) \<noteq> [] \<and>
   (\<exists>t. coordinate_transform [(110, - 110, 50), (150, - 50, 50)] = Inr t \<and> shift t = (4, - 2, 2))"
proof -
  have ne: "([(110, - 110, 50), (150, - 50, 50)] :: vec3 list) \<noteq> []" by simp
  from shift_is_truncated_closer_extremum[OF ne]
  obtain t where t: "coordinate_transform [(110, - 110, 50), (150, - 50, 50)] = Inr t"
    and s: "shift t =
      (py_int (closer_to_zero (Max (set (axis0 [(110, - 110, 50), (150, - 50, 50)])))
                              (Min (set (axis0 [(110, - 110, 50), (150, - 50, 50)])))),
       py_int (closer_to_zero (Max (set (axis1 [(110, - 110, 50), (150, - 50, 50)])))
                              (Min (set (axis1 [(110, - 110, 50), (150, - 50, 50)])))),
       py_int (closer_to_zero (Max (set (axis2 [(110, - 110, 50), (150, - 50, 50)])))
                              (Min (set (axis2 [(110, - 110, 50), (150, - 50, 50)])))))"
    by blast
  have "shift t = (4, - 2, 2)"
    unfolding s by (simp add: axis0_def axis1_def axis2_def closer_to_zero_def py_int_def)
  with t ne show ?thesis by blast
qed

text \<open>
  The claim as stated, without the truncation, fails on the cloud of the single point
  \<open>(10, 10, 10)\<close>: its voxel-space coordinates are \<open>0.4\<close>, the maximum and the minimum are
  both \<open>0.4\<close>, and the shift is \<open>0\<close>.
\<close>

theorem shift_truncation_counterexample:
  "coordinate_transform [(10, 10, 10)] =
     Inr \<lparr>max_vals = (2 / 5, 2 / 5, 2 / 5), min_vals = (2 / 5, 2 / 5, 2 / 5),
          shift = (0, 0, 0), voxel_coords = [(2 / 5, 2 / 5, 2 / 5, 1)]\<rparr> \<and>
   closer_to_zero (Max (set (axis0 [(10, 10, 10)]))) (Min (set (axis0 [(10, 10, 10)]))) = 2 / 5 \<and>
   closer_to_zero (Max (set (axis1 [(10, 10, 10)]))) (Min (set (axis1 [(10, 10, 10)]))) = 2 / 5 \<and>
   closer_to_zero (Max (set (axis2 [(10, 10, 10)]))) (Min (set (axis2 [(10, 10, 10)]))) = 2 / 5"
  by (simp add: coordinate_transform_def amax_rows_def amin_rows_def np_amax_def np_amin_def
      and_then_def inv_transform_scale_def column_argmin_abs_def py_int_def
      axis0_def axis1_def axis2_def closer_to_zero_def)

subsection \<open>C6: what can fail before the mesh\<close>

text \<open>
  Claim C6, amended. On an empty cloud the coordinate transform raises the ValueError of
  numpy's reduction over an array of size zero; no check of the input is written in the
  source and no \<open>InvalidInput\<close> is raised. \<^verbatim>\<open>alphashape\<close> ends there, before the rounded
  coordinates are allocated and before the grid is made: the store is as it was. On a
  non-empty cloud of finite floats the coordinate transform does not fail. Nothing is said
  here of the voxelization of a non-empty cloud, which can fail (claim C7).
\<close>

theorem empty_cloud_fails_nonempty_cloud_transforms:
  "coordinate_transform [] = Inl ValueError \<and>
   (arrays h c = Some (Float64 []) \<longrightarrow> alphashape mc h c = (Inl ValueError, h)) \<and>
   (coords \<noteq> [] \<longrightarrow> (\<exists>t. coordinate_transform coords = Inr t))"
proof (intro conjI impI)
  show "coordinate_transform [] = Inl ValueError" by (rule coordinate_transform_empty)
  show "alphashape mc h c = (Inl ValueError, h)" if "arrays h c = Some (Float64 [])"
    using that
    by (simp add: alphashape_def alphashape_body_def run_pipeline_def coordinate_transform_empty)
  show "\<exists>t. coordinate_transform coords = Inr t" if "coords \<noteq> []"
    using coordinate_transform_eq[OF that] by simp
qed

text \<open>
  A cloud of two points, with voxel-space coordinates \<open>(1, 0, -2)\<close> and \<open>(2, 1, -2)\<close>, and a
  store all of whose arrays are empty clouds.
\<close>

theorem empty_cloud_fails_nonempty_cloud_transforms_witness:
  "([(25, 0, - 50), (50, 25, - 50)] :: vec3 list) \<noteq> [] \<and>
   (\<exists>t. coordinate_transform [(25, 0, - 50), (50, 25, - 50)] = Inr t) \<and>
   alphashape one_vertex_mesh \<lparr>arrays = (\<lambda>a. Some (Float64 [])), lim = 1\<rparr> 0 =
     (Inl ValueError, \<lparr>arrays = (\<lambda>a. Some (Float64 [])), lim = 1\<rparr>)"
proof -
  have ne: "([(25, 0, - 50), (50, 25, - 50)] :: vec3 list) \<noteq> []" by simp
  have e: "arrays \<lparr>arrays = (\<lambda>a. Some (Float64 [])), lim = 1\<rparr> 0 = Some (Float64 [])" by simp
  show ?thesis
    using ne e
      empty_cloud_fails_nonempty_cloud_transforms[of "\<lparr>arrays = (\<lambda>a. Some (Float64 [])), lim = 1\<rparr>" 0
        one_vertex_mesh "[(25, 0, - 50), (50, 25, - 50)]"]
    by blast
qed

text \<open>
  The claim as stated fails on the store whose cloud, at address 0, has no point: the run
  ends with ValueError, which is not \<open>InvalidInput\<close>.
\<close>

theorem empty_cloud_not_InvalidInput_counterexample:
  "fst (alphashape one_vertex_mesh empty_cloud_store 0) = Inl ValueError \<and>
   fst (alphashape one_vertex_mesh empty_cloud_store 0) \<noteq> Inl InvalidInput"
  by (simp add: alphashape_def alphashape_body_def run_pipeline_def coordinate_transform_empty
      empty_cloud_store_def)

subsection \<open>C7: the grid and the rounded points\<close>

text \<open>
  Claim C7 at the cloud of the two points \<open>(15, 0, 0)\<close> and \<open>(40, 0, 0)\<close>, 25 microns apart.
  The voxel-space coordinates along the first axis are \<open>0.6\<close> and \<open>1.6\<close>; the shift is
  \<open>int(0.6) = 0\<close>; the grid has \<open>around(1.6 - 0.6) + 1 = 2\<close> cells along that axis; the points
  round to the indices 1 and 2; and \<^verbatim>\<open>voxels[2, 0, 0] = 1\<close> raises IndexError.
\<close>

theorem rounded_point_outside_grid:
  "\<exists>t. coordinate_transform [(15, 0, 0), (40, 0, 0)] = Inr t \<and>
        shift t = (0, 0, 0) \<and>
        grid_shape (voxel_volume_size (max_vals t) (min_vals t)) = (2, 1, 1) \<and>
        rounded_coords t = [(1, 0, 0), (2, 0, 0)] \<and>
        voxel_grid t (rounded_coords t) = Inl IndexError"
proof -
  have "coordinate_transform [(15, 0, 0), (40, 0, 0)] =
      Inr \<lparr>max_vals = (8 / 5, 0, 0), min_vals = (3 / 5, 0, 0), shift = (0, 0, 0),
           voxel_coords = [(3 / 5, 0, 0, 1), (8 / 5, 0, 0, 1)]\<rparr>"
    by (simp add: coordinate_transform_def amax_rows_def amin_rows_def np_amax_def np_amin_def
        and_then_def inv_transform_scale_def column_argmin_abs_def py_int_def)
  then show ?thesis
    by (simp add: voxel_grid_def rounded_coords_def np_around_def and_then_def
        np_zeros_def py_index_def)
qed

subsection \<open>C2: the projector\<close>

text \<open>
  Claim C2, amended. For every machine arithmetic, every mesh with one normal per vertex and
  every non-empty pool, a pool of floats or the pool of integers that \<^verbatim>\<open>alphashape\<close> passes,
  a call of the projector ends in one of two ways. Either it raises an exception, which the
  evaluation of the distance has raised for a vertex of the mesh at a row of the pool, a row
  of the caller or a consumed one. Or it completes as a greedy pass in mesh order: for each
  vertex \<open>v\<close> with normal \<open>n\<close> it evaluates the distance of every row of the pool, the consumed
  rows included, takes a row of the pool, which is the first-encountered minimum of the
  absolute values of the computed distances whenever none of them is NaN, stores that row in
  the vertex's slot of the result, and overwrites it in the pool with the row that line 167
  leaves; the result has one entry per vertex and the pool keeps its length.

  In exact arithmetic the distance of a finite row \<open>p\<close> is \<open>d(p) = (n\<cdot>p - n\<cdot>v) / \<parallel>n\<parallel>\<close> when the
  norm of the normal is not zero; when that norm is zero the evaluation raises
  ZeroDivisionError, whatever the row.
\<close>

theorem projector_is_greedy_pass:
  assumes "coords \<noteq> []" and "length verts = length normals"
  shows "((\<exists>is best coords'.
             find_best_approximations_on m coords verts normals = (Inr best, coords') \<and>
             greedy m (zip verts normals) coords is best coords' \<and>
             length best = length verts \<and> length coords' = length coords)
          \<or> (\<exists>vn p e coords'. vn \<in> set (zip verts normals) \<and> (p \<in> set coords \<or> p = inf_row m) \<and>
                distance m (fst vn) (snd vn) p = Inl e \<and>
                find_best_approximations_on m coords verts normals = (Inl e, coords'))) \<and>
         (norm3 n \<noteq> 0 \<longrightarrow> plane_distance v n (Fin p0, Fin p1, Fin p2) =
            Inr (Fin ((dot3 n (p0, p1, p2) - dot3 n v) / norm3 n))) \<and>
         (norm3 n0 = 0 \<longrightarrow> plane_distance v0 n0 q = Inl ZeroDivisionError)"
proof (intro conjI impI)
  from find_best_approximations_on_greedy[OF assms, of m]
  show "(\<exists>is best coords'.
             find_best_approximations_on m coords verts normals = (Inr best, coords') \<and>
             greedy m (zip verts normals) coords is best coords' \<and>
             length best = length verts \<and> length coords' = length coords)
          \<or> (\<exists>vn p e coords'. vn \<in> set (zip verts normals) \<and> (p \<in> set coords \<or> p = inf_row m) \<and>
                distance m (fst vn) (snd vn) p = Inl e \<and>
                find_best_approximations_on m coords verts normals = (Inl e, coords'))"
  proof
    assume "\<exists>is best coords'.
        find_best_approximations_on m coords verts normals = (Inr best, coords') \<and>
        greedy m (zip verts normals) coords is best coords'"
    then obtain "is" best coords' where
      r: "find_best_approximations_on m coords verts normals = (Inr best, coords')"
      and g: "greedy m (zip verts normals) coords is best coords'" by blast
    have "length best = length verts" "length coords' = length coords"
      using greedy_length[OF g] assms(2) by simp_all
    with r g show ?thesis by blast
  next
    assume "\<exists>vn p e coords'. vn \<in> set (zip verts normals) \<and> (p \<in> set coords \<or> p = inf_row m) \<and>
        distance m (fst vn) (snd vn) p = Inl e \<and>
        find_best_approximations_on m coords verts normals = (Inl e, coords')"
    then show ?thesis by blast
  qed
next
  assume "norm3 n \<noteq> 0"
  then show "plane_distance v n (Fin p0, Fin p1, Fin p2) =
      Inr (Fin ((dot3 n (p0, p1, p2) - dot3 n v) / norm3 n))"
    by (rule plane_distance_finite)
next
  assume "norm3 n0 = 0"
  then show "plane_distance v0 n0 q = Inl ZeroDivisionError"
    by (simp add: plane_distance_error)
qed

text \<open>
  A pool of two rows of integers and a mesh of one vertex at the origin with the normal
  \<open>(1, 0, 0)\<close>: the row on the plane is taken and overwritten with the least int64, the
  other stays. With the normal \<open>(0, 0, 0)\<close> the evaluation raises.
\<close>

theorem projector_is_greedy_pass_witness:
  "([(5, 0, 0), (0, 1, 0)] :: ivec3 list) \<noteq> [] \<and>
   length ([(0, 0, 0)] :: vec3 list) = length ([(1, 0, 0)] :: vec3 list) \<and>
   find_best_approximations_on int64_pool [(5, 0, 0), (0, 1, 0)] [(0, 0, 0)] [(1, 0, 0)] =
     (Inr [(Fin 0, Fin 1, Fin 0)], [(5, 0, 0), int64_sentinel]) \<and>
   (\<exists>is. greedy int64_pool (zip [(0, 0, 0)] [(1, 0, 0)]) [(5, 0, 0), (0, 1, 0)] is
      [(Fin 0, Fin 1, Fin 0)] [(5, 0, 0), int64_sentinel]) \<and>
   norm3 (1, 0, 0) \<noteq> 0 \<and> plane_distance (0, 0, 0) (1, 0, 0) (Fin 5, Fin 0, Fin 0) = Inr (Fin 5) \<and>
   norm3 (0, 0, 0) = 0 \<and>
   plane_distance (0, 0, 0) (0, 0, 0) (Fin 5, Fin 0, Fin 0) = Inl ZeroDivisionError"
proof -
  have e: "find_best_approximations_on int64_pool [(5, 0, 0), (0, 1, 0)] [(0, 0, 0)] [(1, 0, 0)] =
     (Inr [(Fin 0, Fin 1, Fin 0)], [(5, 0, 0), int64_sentinel])"
    by (simp add: find_best_approximations_on_def int64_pool_def minind_def np_argmin_def
        and_then_def)
  have ne: "([(5, 0, 0), (0, 1, 0)] :: ivec3 list) \<noteq> []" by simp
  have len: "length ([(0, 0, 0)] :: vec3 list) = length ([(1, 0, 0)] :: vec3 list)" by simp
  have n: "norm3 (1, 0, 0) \<noteq> 0" by simp
  have z: "norm3 (0, 0, 0) = 0" by simp
  from projector_is_greedy_pass[OF ne len, of int64_pool "(1, 0, 0)" "(0, 0, 0)" 5 0 0
      "(0, 0, 0)" "(0, 0, 0)" "(Fin 5, Fin 0, Fin 0)"] n z
  have g: "(\<exists>is best coords'.
         find_best_approximations_on int64_pool [(5, 0, 0), (0, 1, 0)] [(0, 0, 0)] [(1, 0, 0)] =
           (Inr best, coords') \<and>
         greedy int64_pool (zip [(0, 0, 0)] [(1, 0, 0)]) [(5, 0, 0), (0, 1, 0)] is best coords' \<and>
         length best = length ([(0, 0, 0)] :: vec3 list) \<and>
         length coords' = length ([(5, 0, 0), (0, 1, 0)] :: ivec3 list))
      \<or> (\<exists>vn p e coords'. vn \<in> set (zip [(0, 0, 0)] [(1, 0, 0)]) \<and>
            (p \<in> set [(5, 0, 0), (0, 1, 0)] \<or> p = inf_row int64_pool) \<and>
            distance int64_pool (fst vn) (snd vn) p = Inl e \<and>
            find_best_approximations_on int64_pool [(5, 0, 0), (0, 1, 0)] [(0, 0, 0)] [(1, 0, 0)] =
              (Inl e, coords'))"
    and d: "plane_distance (0, 0, 0) (1, 0, 0) (Fin 5, Fin 0, Fin 0) =
      Inr (Fin ((dot3 (1, 0, 0) (5, 0, 0) - dot3 (1, 0, 0) (0, 0, 0)) / norm3 (1, 0, 0)))"
    and r: "plane_distance (0, 0, 0) (0, 0, 0) (Fin 5, Fin 0, Fin 0) = Inl ZeroDivisionError"
    by blast+
  from g have "\<exists>is. greedy int64_pool (zip [(0, 0, 0)] [(1, 0, 0)]) [(5, 0, 0), (0, 1, 0)] is
      [(Fin 0, Fin 1, Fin 0)] [(5, 0, 0), int64_sentinel]"
    unfolding e by auto
  moreover from d have "plane_distance (0, 0, 0) (1, 0, 0) (Fin 5, Fin 0, Fin 0) = Inr (Fin 5)"
    by simp
  ultimately show ?thesis using e ne len n z r by blast
qed

text \<open>
  The claim as stated fails once the pool is used up. With a pool of one point and a mesh
  of two vertices the second vertex has no remaining point; the consumed row, now the
  sentinel with an infinite distance, minimizes again and is stored in the second slot.
\<close>

theorem consumed_row_minimizes_again_counterexample:
  "find_best_approximations [(Fin 0, Fin 0, Fin 0)] [(0, 0, 0), (0, 0, 0)] [(1, 1, 1), (1, 1, 1)] =
     Inr ([(Fin 0, Fin 0, Fin 0), sentinel], [sentinel])"
  by (simp add: find_best_approximations_def find_best_approximations_on_def float64_pool_def
      minind_def np_argmin_def and_then_def sentinel_def)

subsection \<open>C3: a pool smaller than the mesh\<close>

text \<open>
  Claim C3, amended. Whenever a non-empty pool has fewer rows than the mesh has vertices,
  the projector, on every machine arithmetic, either raises an exception that the
  evaluation of a distance has raised, or returns a result with one entry per vertex, at
  least one of which is the row that stands for a consumed one: the infinite coordinates in
  a pool of floats, the least int64 in a pool of integers. The source has no check of
  exhaustion: in exact arithmetic, on either kind of pool and whatever its size, no call
  raises \<open>PoolExhaustion\<close>.
\<close>

theorem exhausted_pool_returns_sentinel:
  assumes "coords \<noteq> []" "length verts = length normals" "length coords < length verts"
  shows "((\<exists>best coords'.
             find_best_approximations_on m coords verts normals = (Inr best, coords') \<and>
             length best = length verts \<and> as_result m (inf_row m) \<in> set best)
          \<or> (\<exists>vn p e coords'. vn \<in> set (zip verts normals) \<and> (p \<in> set coords \<or> p = inf_row m) \<and>
                distance m (fst vn) (snd vn) p = Inl e \<and>
                find_best_approximations_on m coords verts normals = (Inl e, coords'))) \<and>
         fst (find_best_approximations_on float64_pool fcoords vs ns) \<noteq> Inl PoolExhaustion \<and>
         fst (find_best_approximations_on int64_pool icoords vs ns) \<noteq> Inl PoolExhaustion"
proof (intro conjI)
  from find_best_approximations_on_greedy[OF assms(1,2), of m]
  show "(\<exists>best coords'.
             find_best_approximations_on m coords verts normals = (Inr best, coords') \<and>
             length best = length verts \<and> as_result m (inf_row m) \<in> set best)
          \<or> (\<exists>vn p e coords'. vn \<in> set (zip verts normals) \<and> (p \<in> set coords \<or> p = inf_row m) \<and>
                distance m (fst vn) (snd vn) p = Inl e \<and>
                find_best_approximations_on m coords verts normals = (Inl e, coords'))"
  proof
    assume "\<exists>is best coords'.
        find_best_approximations_on m coords verts normals = (Inr best, coords') \<and>
        greedy m (zip verts normals) coords is best coords'"
    then obtain "is" best coords' where
      r: "find_best_approximations_on m coords verts normals = (Inr best, coords')"
      and g: "greedy m (zip verts normals) coords is best coords'" by blast
    have len: "length best = length verts" using greedy_length[OF g] assms(2) by simp
    have "as_result m (inf_row m) \<in> set best"
    proof (rule ccontr)
      assume "as_result m (inf_row m) \<notin> set best"
      from greedy_no_sentinel_live[OF g this] have "length verts \<le> live m coords"
        using assms(2) by simp
      with live_le_length[of m coords] assms(3) show False by simp
    qed
    with r len show ?thesis by blast
  next
    assume "\<exists>vn p e coords'. vn \<in> set (zip verts normals) \<and> (p \<in> set coords \<or> p = inf_row m) \<and>
        distance m (fst vn) (snd vn) p = Inl e \<and>
        find_best_approximations_on m coords verts normals = (Inl e, coords')"
    then show ?thesis by blast
  qed
next
  show "fst (find_best_approximations_on float64_pool fcoords vs ns) \<noteq> Inl PoolExhaustion"
  proof
    assume a: "fst (find_best_approximations_on float64_pool fcoords vs ns) = Inl PoolExhaustion"
    then obtain c where "project float64_pool (zip vs ns) 0 fcoords
        (replicate (length ns) (Fin 0, Fin 0, Fin 0)) = (Inl PoolExhaustion, c)"
      unfolding find_best_approximations_on_def by (metis prod.collapse)
    from project_error[OF this] show False
      by (auto simp: float64_pool_def plane_distance_error)
  qed
next
  show "fst (find_best_approximations_on int64_pool icoords vs ns) \<noteq> Inl PoolExhaustion"
  proof
    assume a: "fst (find_best_approximations_on int64_pool icoords vs ns) = Inl PoolExhaustion"
    then obtain c where "project int64_pool (zip vs ns) 0 icoords
        (replicate (length ns) (Fin 0, Fin 0, Fin 0)) = (Inl PoolExhaustion, c)"
      unfolding find_best_approximations_on_def by (metis prod.collapse)
    from project_error[OF this] show False
      by (auto simp: int64_pool_def plane_distance_error)
  qed
qed

text \<open>A pool of one row of integers and a mesh of two vertices.\<close>

theorem exhausted_pool_returns_sentinel_witness:
  "([(2, 0, 0)] :: ivec3 list) \<noteq> [] \<and>
   length ([(0, 0, 0), (1, 0, 0)] :: vec3 list) = length ([(1, 0, 0), (0, 1, 0)] :: vec3 list) \<and>
   length ([(2, 0, 0)] :: ivec3 list) < length ([(0, 0, 0), (1, 0, 0)] :: vec3 list) \<and>
   (\<exists>best coords'.
      find_best_approximations_on int64_pool [(2, 0, 0)] [(0, 0, 0), (1, 0, 0)] [(1, 0, 0), (0, 1, 0)] =
        (Inr best, coords') \<and>
      length best = length ([(0, 0, 0), (1, 0, 0)] :: vec3 list) \<and>
      of_ivec3 int64_sentinel \<in> set best)"
proof -
  have a: "([(2, 0, 0)] :: ivec3 list) \<noteq> []" by simp
  have b: "length ([(0, 0, 0), (1, 0, 0)] :: vec3 list) = length ([(1, 0, 0), (0, 1, 0)] :: vec3 list)"
    by simp
  have c: "length ([(2, 0, 0)] :: ivec3 list) < length ([(0, 0, 0), (1, 0, 0)] :: vec3 list)" by simp
  have e: "find_best_approximations_on int64_pool [(2, 0, 0)] [(0, 0, 0), (1, 0, 0)]
      [(1, 0, 0), (0, 1, 0)] = (Inr [(Fin 2, Fin 0, Fin 0), of_ivec3 int64_sentinel], [int64_sentinel])"
    by (simp add: find_best_approximations_on_def int64_pool_def minind_def np_argmin_def
        and_then_def int64_sentinel_def)
  from exhausted_pool_returns_sentinel[OF a b c, of int64_pool]
  have "(\<exists>best coords'.
      find_best_approximations_on int64_pool [(2, 0, 0)] [(0, 0, 0), (1, 0, 0)] [(1, 0, 0), (0, 1, 0)] =
        (Inr best, coords') \<and>
      length best = length ([(0, 0, 0), (1, 0, 0)] :: vec3 list) \<and>
      as_result int64_pool (inf_row int64_pool) \<in> set best)
    \<or> (\<exists>vn p e coords'. vn \<in> set (zip [(0, 0, 0), (1, 0, 0)] [(1, 0, 0), (0, 1, 0)]) \<and>
          (p \<in> set [(2, 0, 0)] \<or> p = inf_row int64_pool) \<and>
          distance int64_pool (fst vn) (snd vn) p = Inl e \<and>
          find_best_approximations_on int64_pool [(2, 0, 0)] [(0, 0, 0), (1, 0, 0)]
            [(1, 0, 0), (0, 1, 0)] = (Inl e, coords'))"
    by blast
  then have "\<exists>best coords'.
      find_best_approximations_on int64_pool [(2, 0, 0)] [(0, 0, 0), (1, 0, 0)] [(1, 0, 0), (0, 1, 0)] =
        (Inr best, coords') \<and>
      length best = length ([(0, 0, 0), (1, 0, 0)] :: vec3 list) \<and>
      of_ivec3 int64_sentinel \<in> set best"
    unfolding e by (auto simp: int64_pool_def)
  with a b c show ?thesis by blast
qed

text \<open>
  The claim as stated fails: with a pool of one point and a mesh of three vertices no
  error is raised, and the result holds the sentinel twice.
\<close>

theorem no_exhaustion_error_counterexample:
  "find_best_approximations [(Fin 1, Fin 2, Fin 3)]
     [(0, 0, 0), (0, 0, 1), (0, 0, 2)] [(0, 0, 1), (0, 0, 1), (0, 0, 1)] =
     Inr ([(Fin 1, Fin 2, Fin 3), sentinel, sentinel], [sentinel])"
  by (simp add: find_best_approximations_def find_best_approximations_on_def float64_pool_def
      minind_def np_argmin_def and_then_def sentinel_def)

subsection \<open>C4: consumed points\<close>




subsection \<open>C5: distinct points\<close>

text \<open>
  Claim C5 at a pool of three points and a mesh of two vertices with the normal
  \<open>(1, 0, 0)\<close>. The first vertex takes \<open>(0, 0, 0)\<close>. For the second vertex, at \<open>(1, 0, 0)\<close>, the
  remaining point \<open>(1, 0, 0)\<close> is at distance 0, but the distance of the consumed row is NaN
  and the argmin takes it: the second entry of the result is the sentinel and no point of
  the cloud.
\<close>

theorem large_pool_result_holds_sentinel:
  "find_best_approximations [(Fin 0, Fin 0, Fin 0), (Fin 1, Fin 0, Fin 0), (Fin 2, Fin 0, Fin 0)]
     [(0, 0, 0), (1, 0, 0)] [(1, 0, 0), (1, 0, 0)] =
     Inr ([(Fin 0, Fin 0, Fin 0), sentinel],
          [sentinel, (Fin 1, Fin 0, Fin 0), (Fin 2, Fin 0, Fin 0)])"
  by (simp add: find_best_approximations_def find_best_approximations_on_def float64_pool_def
      minind_def np_argmin_def and_then_def sentinel_def)

subsection \<open>C10: the caller's arrays\<close>

text \<open>
  Claim C10. A run of \<^verbatim>\<open>alphashape\<close> on the cloud at address \<open>c\<close>, whether it completes or
  raises, leaves every array of the store as it was, but for the one array that the run
  itself allocates (at the address \<open>lim h\<close>, which nothing held before): the rounded
  voxel-space coordinates, which the projector overwrites. In particular the caller's cloud
  and every other array of the caller, such as the six tensor components, are unchanged.
\<close>

theorem caller_arrays_unchanged:
  assumes "alphashape mc h c = (r, h')"
  shows "(\<forall>b. b \<noteq> lim h \<longrightarrow> arrays h' b = arrays h b) \<and> (c < lim h \<longrightarrow> arrays h' c = arrays h c)"
proof -
  obtain r0 where b: "alphashape_body mc h c = (r0, h')"
    using assms by (auto simp: alphashape_def split: prod.splits sum.splits)
  have "\<forall>b. b \<noteq> lim h \<longrightarrow> arrays h' b = arrays h b"
  proof (cases "arrays h c")
    case None
    with b show ?thesis by (simp add: alphashape_body_def)
  next
    case (Some a)
    show ?thesis
    proof (cases a)
      case (Float64 coords)
      with Some b have "run_pipeline mc h coords = (r0, h')" by (simp add: alphashape_body_def)
      then show ?thesis by (rule run_pipeline_frame)
    next
      case (Int64 x)
      with Some b show ?thesis by (simp add: alphashape_body_def)
    qed
  qed
  then show ?thesis by auto
qed

text \<open>
  The store with the cloud of one point at address 0: after the run the cloud is as
  before, and the array the run allocated at address 1, the rounded coordinates, holds
  the least int64 in the row that the projector has overwritten.
\<close>

theorem caller_arrays_unchanged_witness:
  "arrays (snd (alphashape one_vertex_mesh one_point_store 0)) 0 = Some (Float64 [(0, 0, 0)]) \<and>
   arrays (snd (alphashape one_vertex_mesh one_point_store 0)) 1 = Some (Int64 [int64_sentinel])"
proof -
  have e: "alphashape one_vertex_mesh one_point_store 0 =
      (fst (alphashape one_vertex_mesh one_point_store 0),
       snd (alphashape one_vertex_mesh one_point_store 0))" by simp
  have "arrays (snd (alphashape one_vertex_mesh one_point_store 0)) 0 = arrays one_point_store 0"
    using caller_arrays_unchanged[OF e] by (simp add: one_point_store_def)
  moreover have "arrays (snd (alphashape one_vertex_mesh one_point_store 0)) 1 = Some (Int64 [int64_sentinel])"
    using alphashape_body_origin_store by (simp add: alphashape_store)
  ultimately show ?thesis by (simp add: one_point_store_def)
qed

subsection \<open>C1: what \<^verbatim>\<open>alphashape\<close> returns\<close>

text \<open>
  Claim C1. No run of \<^verbatim>\<open>alphashape\<close> returns a list of coordinates: a run that completes
  returns \<open>None\<close>. At the cloud of the one point \<open>(0, 0, 0)\<close>, with a mesh of one vertex,
  the run completes; \<open>approx_coords\<close>, the chosen point mapped back to microns, has been
  computed; and the value returned is \<open>None\<close>.
\<close>

theorem alphashape_returns_None:
  "fst (alphashape mc h c) \<noteq> Inr (Some r) \<and>
   fst (alphashape one_vertex_mesh one_point_store 0) = Inr None \<and>
   map_sum id approx_coords (fst (alphashape_body one_vertex_mesh one_point_store 0)) =
     Inr [(Fin 0, Fin 0, Fin 0, Fin 1)]"
proof (intro conjI)
  show "fst (alphashape mc h c) \<noteq> Inr (Some r)"
    by (cases "alphashape_body mc h c") (auto simp: alphashape_def split: sum.splits)
  obtain r0 h0 where e: "alphashape_body one_vertex_mesh one_point_store 0 = (r0, h0)"
    by (cases "alphashape_body one_vertex_mesh one_point_store 0")
  with alphashape_body_origin obtain a where a: "r0 = Inr a" by simp
  with e show "fst (alphashape one_vertex_mesh one_point_store 0) = Inr None"
    by (simp add: alphashape_def)
  show "map_sum id approx_coords (fst (alphashape_body one_vertex_mesh one_point_store 0)) =
     Inr [(Fin 0, Fin 0, Fin 0, Fin 1)]"
    using alphashape_body_origin by simp
qed

end
